theory Spec2Isabelle
  imports
    Main
    "HOL-Library.List_Lexorder"
    "HOL-Library.Product_Lexorder"
    "HOL-Library.Multiset"
    "HOL-Library.Sublist"
begin

section \<open>Python values used by worklog.py\<close>

text \<open>
  A Python \<open>str\<close> is a sequence of Unicode code points, so it is modelled as a list of
  natural numbers; \<open>str ''abc''\<close> is the literal. Lists of code points are ordered
  lexicographically (a proper prefix is smaller), which is how Python compares strings.
\<close>

type_synonym str = "nat list"

definition str :: "string \<Rightarrow> str" where
  "str s = map of_char s"

text \<open>
  \<open>str.isspace\<close> for one code point: the ASCII white space of CPython (which includes the
  separators 0x1C to 0x1F) and the Unicode white space beyond ASCII.
\<close>

definition isspace :: "nat \<Rightarrow> bool" where
  "isspace c = (c \<in> set [9, 10, 11, 12, 13, 28, 29, 30, 31, 32, 133, 160, 5760,
       8192, 8193, 8194, 8195, 8196, 8197, 8198, 8199, 8200, 8201, 8202,
       8232, 8233, 8239, 8287, 12288])"

text \<open>\<open>s.strip()\<close>: white space removed at both ends.\<close>

definition strip :: "str \<Rightarrow> str" where
  "strip s = rev (dropWhile isspace (rev (dropWhile isspace s)))"

text \<open>
  \<open>s.split(sep)\<close> for a separator of one code point (the only kind worklog.py uses):
  the text is cut at every separator; without a separator the result is \<open>[s]\<close>.
\<close>

function split :: "nat \<Rightarrow> str \<Rightarrow> str list" where
  "split sep s =
     (case dropWhile (\<lambda>c. c \<noteq> sep) s of
        [] \<Rightarrow> [s]
      | _ # rest \<Rightarrow> takeWhile (\<lambda>c. c \<noteq> sep) s # split sep rest)"
  by pat_completeness auto
termination
proof (relation "measure (\<lambda>(sep, s). length s)")
  show "wf (measure (\<lambda>(sep, s). length s))" by simp
next
  fix sep :: nat and s :: str and x rest
  assume "dropWhile (\<lambda>c. c \<noteq> sep) s = x # rest"
  then have "length (x # rest) \<le> length s"
    by (metis length_dropWhile_le)
  then show "((sep, rest), (sep, s)) \<in> measure (\<lambda>(sep, s). length s)" by simp
qed

text \<open>\<open>s.split(sep, maxsplit)\<close>: at most \<open>maxsplit\<close> cuts, the rest of the text is the last part.\<close>

fun split_max :: "nat \<Rightarrow> nat \<Rightarrow> str \<Rightarrow> str list" where
  "split_max sep 0 s = [s]"
| "split_max sep (Suc n) s =
     (case dropWhile (\<lambda>c. c \<noteq> sep) s of
        [] \<Rightarrow> [s]
      | _ # rest \<Rightarrow> takeWhile (\<lambda>c. c \<noteq> sep) s # split_max sep n rest)"

text \<open>\<open>sep.join(parts)\<close>.\<close>

fun join :: "str \<Rightarrow> str list \<Rightarrow> str" where
  "join sep [] = []"
| "join sep [p] = p"
| "join sep (p # q # ps) = p @ sep @ join sep (q # ps)"

text \<open>\<open>str(n)\<close> for a natural number (the length of a list): its decimal digits.\<close>

fun str_nat :: "nat \<Rightarrow> str" where
  "str_nat n = (if n < 10 then [48 + n] else str_nat (n div 10) @ [48 + n mod 10])"

text \<open>
  Exceptions are values. \<open>ValueError\<close> carries its message; \<open>TypeError\<close> is what a call of a
  dataclass constructor with the wrong number of arguments raises; \<open>OtherError\<close> stands for
  the failures of the library calls (network, JSON, decoding).
\<close>

datatype error = ValueError str | TypeError | IndexError | OtherError str

text \<open>\<open>xs[i]\<close> for a non-negative index: out of range it raises \<open>IndexError\<close>.\<close>

definition getitem :: "'a list \<Rightarrow> nat \<Rightarrow> error + 'a" where
  "getitem xs i = (if i < length xs then Inr (xs ! i) else Inl IndexError)"

text \<open>
  A timezone-aware \<open>datetime\<close> is an instant: an integer count of microseconds since the
  epoch. Aware datetimes are compared as instants.
\<close>

type_synonym datetime = int

section \<open>TTY\<close>

definition TTY_Reset :: str where "TTY_Reset = 27 # str ''[0m''"
definition TTY_Green :: str where "TTY_Green = 27 # str ''[32m''"
definition TTY_Yellow :: str where "TTY_Yellow = 27 # str ''[33m''"
definition TTY_Blue :: str where "TTY_Blue = 27 # str ''[34m''"

definition TTY_url :: "str \<Rightarrow> str \<Rightarrow> str" where
  "TTY_url name ref =
     27 # str '']8;;'' @ ref @ [27, 92] @ name @ 27 # str '']8;;'' @ [27, 92]"

text \<open>The link label of \<open>to_tty\<close>, with the code points the source file has between the brackets.\<close>

definition link_label :: str where
  "link_label = [91, 240, 376, 161, 8226, 93]"

section \<open>The world outside the program\<close>

text \<open>
  The program reads the clock, fetches the build feed, runs \<open>git log\<close>, prints and sleeps.
  The state of a run is the number of clock readings made so far and the trace of the
  input and output performed, oldest first.
\<close>

datatype event = Urlopen str | Popen "str list" | Print str | Sleep nat

record world =
  clock :: nat
  trace :: "event list"

type_synonym 'a io = "world \<Rightarrow> (error + 'a) \<times> world"

definition return :: "'a \<Rightarrow> 'a io" where
  "return x w = (Inr x, w)"

definition raise :: "error \<Rightarrow> 'a io" where
  "raise e w = (Inl e, w)"

definition bind :: "'a io \<Rightarrow> ('a \<Rightarrow> 'b io) \<Rightarrow> 'b io" where
  "bind m f w = (case m w of (Inl e, w') \<Rightarrow> (Inl e, w') | (Inr x, w') \<Rightarrow> f x w')"

text \<open>\<open>print(s)\<close> and \<open>time.sleep(n)\<close>.\<close>

definition print :: "str \<Rightarrow> unit io" where
  "print s w = (Inr (), w\<lparr>trace := trace w @ [Print s]\<rparr>)"

definition sleep :: "nat \<Rightarrow> unit io" where
  "sleep n w = (Inr (), w\<lparr>trace := trace w @ [Sleep n]\<rparr>)"

section \<open>Build\<close>

record build =
  build_id :: int
  pkg :: str
  version :: str
  release :: str
  build_ref :: str
  tag :: str
  tag_url :: str
  log_url :: str
  status :: str
  builder :: str
  finished :: "str option"

text \<open>
  What the program does not contain: the clock (\<open>now_utc env k\<close> is the reading number
  \<open>k\<close> of \<open>datetime.now\<close>), \<open>datetime.fromisoformat(s).astimezone(timezone.utc)\<close> (a
  \<open>ValueError\<close> on text that is no ISO date), \<open>str\<close> of a datetime, the feed (what
  fetching the URL and decoding its JSON into builds gives, after so many events) and the
  \<open>git log\<close> process (\<open>None\<close> when the process has no output pipe, else its output read
  and decoded).
\<close>

record env =
  now_utc :: "nat \<Rightarrow> datetime"
  fromisoformat_utc :: "str \<Rightarrow> error + datetime"
  str_datetime :: "datetime \<Rightarrow> str"
  urlopen_json :: "str \<Rightarrow> nat \<Rightarrow> error + build list"
  popen_stdout :: "str list \<Rightarrow> nat \<Rightarrow> (error + str) option"

text \<open>\<open>datetime.now(tz=timezone.utc)\<close>: one more reading of the clock.\<close>

definition now :: "env \<Rightarrow> datetime io" where
  "now env w = (Inr (now_utc env (clock w)), w\<lparr>clock := Suc (clock w)\<rparr>)"

definition Build_package :: "build \<Rightarrow> str" where
  "Build_package b = pkg b"

definition Build_date :: "env \<Rightarrow> build \<Rightarrow> datetime io" where
  "Build_date env b =
     (case finished b of
        None \<Rightarrow> now env
      | Some f \<Rightarrow> (\<lambda>w. (fromisoformat_utc env f, w)))"

definition Build_to_md :: "build \<Rightarrow> str" where
  "Build_to_md b =
     str ''['' @ pkg b @ str '' '' @ version b @ str ''-'' @ release b @ str '']('' @
     tag_url b @ str '')''"

definition Build_to_tty :: "build \<Rightarrow> str" where
  "Build_to_tty b =
     (TTY_Green @ pkg b @ TTY_Reset @ str '' '' @ version b @ str ''-'' @ release b @ str '' '') @
     (TTY_Blue @ str ''['' @ builder b @ str '']'' @ TTY_Reset @ str '' '') @
     TTY_url link_label (tag_url b)"

section \<open>Builds\<close>

definition Builds_url :: str where
  "Builds_url = str ''https://build.getsol.us/builds.json''"

definition Builds_all :: "env \<Rightarrow> build list io" where
  "Builds_all env w =
     (urlopen_json env Builds_url (length (trace w)), w\<lparr>trace := trace w @ [Urlopen Builds_url]\<rparr>)"

text \<open>
  A Python \<open>dict\<close> keeps its keys in insertion order; storing under a key that is present
  replaces the value and leaves the key where it is.
\<close>

fun setitem :: "'k \<Rightarrow> 'v \<Rightarrow> ('k \<times> 'v) list \<Rightarrow> ('k \<times> 'v) list" where
  "setitem k v [] = [(k, v)]"
| "setitem k v ((k', v') # d) =
     (if k' = k then (k', v) # d else (k', v') # setitem k v d)"

text \<open>\<open>{b.pkg: b for b in builds}\<close> and \<open>list({b.pkg: b for b in builds}.values())\<close>.\<close>

definition pkg_dict :: "build list \<Rightarrow> (str \<times> build) list" where
  "pkg_dict bs = foldl (\<lambda>d b. setitem (pkg b) b d) [] bs"

definition by_pkg :: "build list \<Rightarrow> build list" where
  "by_pkg bs = map snd (pkg_dict bs)"

definition Builds_packages :: "env \<Rightarrow> build list io" where
  "Builds_packages env = bind (Builds_all env) (\<lambda>bs. return (by_pkg bs))"

text \<open>The test \<open>start <= d <= end\<close> of the filter.\<close>

definition in_window :: "datetime \<Rightarrow> datetime \<Rightarrow> datetime \<Rightarrow> bool" where
  "in_window start end d = (start \<le> d \<and> d \<le> end)"

text \<open>
  \<open>list(filter(lambda b: start <= b.date <= end, builds))\<close>: the date of each build is
  evaluated once, in list order.
\<close>

fun Builds_filter :: "env \<Rightarrow> build list \<Rightarrow> datetime \<Rightarrow> datetime \<Rightarrow> build list io" where
  "Builds_filter env [] start end w = (Inr [], w)"
| "Builds_filter env (b # bs) start end w =
     (case Build_date env b w of
        (Inl e, w') \<Rightarrow> (Inl e, w')
      | (Inr d, w') \<Rightarrow>
          (case Builds_filter env bs start end w' of
             (Inl e, w'') \<Rightarrow> (Inl e, w'')
           | (Inr rs, w'') \<Rightarrow> (Inr (if in_window start end d then b # rs else rs), w'')))"

definition Builds_during :: "env \<Rightarrow> datetime \<Rightarrow> datetime \<Rightarrow> build list io" where
  "Builds_during env start end = bind (Builds_all env) (\<lambda>bs. Builds_filter env bs start end)"

definition Builds_updates :: "env \<Rightarrow> datetime \<Rightarrow> datetime \<Rightarrow> build list io" where
  "Builds_updates env start end =
     bind (Builds_packages env) (\<lambda>bs. Builds_filter env bs start end)"

section \<open>Commit\<close>

record commit =
  ref :: str
  ts :: str
  msg :: str
  author :: str

text \<open>\<open>Commit(*line.split('\x1e'))\<close>: the constructor takes exactly four arguments.\<close>

definition from_line :: "str \<Rightarrow> error + commit" where
  "from_line line =
     (case split 30 line of
        [r, t, m, a] \<Rightarrow> Inr \<lparr>ref = r, ts = t, msg = m, author = a\<rparr>
      | _ \<Rightarrow> Inl TypeError)"

definition Commit_date :: "env \<Rightarrow> commit \<Rightarrow> error + datetime" where
  "Commit_date env c = fromisoformat_utc env (ts c)"

definition Commit_package :: "commit \<Rightarrow> error + str" where
  "Commit_package c =
     (if 58 \<notin> set (msg c) then Inr (str ''<unknown>'')
      else map_sum id strip (getitem (split_max 58 2 (msg c)) 0))"

definition Commit_change :: "commit \<Rightarrow> error + str" where
  "Commit_change c =
     (if 58 \<notin> set (msg c) then Inr (strip (msg c))
      else map_sum id strip (getitem (split_max 58 2 (msg c)) 1))"

definition Commit_url :: "commit \<Rightarrow> str" where
  "Commit_url c = str ''https://github.com/getsolus/packages/commit/'' @ ref c"

definition Commit_to_md :: "commit \<Rightarrow> str" where
  "Commit_to_md c = str ''['' @ msg c @ str '']('' @ Commit_url c @ str '')''"

definition Commit_to_tty :: "env \<Rightarrow> commit \<Rightarrow> error + str" where
  "Commit_to_tty env c =
     (case Commit_date env c of
        Inl e \<Rightarrow> Inl e
      | Inr d \<Rightarrow>
          (case Commit_package c of
             Inl e \<Rightarrow> Inl e
           | Inr p \<Rightarrow>
               (case Commit_change c of
                  Inl e \<Rightarrow> Inl e
                | Inr ch \<Rightarrow>
                    Inr ((TTY_Yellow @ TTY_url (ref c) (Commit_url c) @ TTY_Reset @ str '' '' @
                          str_datetime env d @ str '' '' @
                          TTY_Green @ p @ str '': '' @ TTY_Reset @ ch @ str '' '' @
                          TTY_Blue @ str ''['' @ author c @ str '']'' @ TTY_Reset @ str '' '') @
                         TTY_url link_label (Commit_url c)))))"

section \<open>Git\<close>

definition Git_cmd :: "str list" where
  "Git_cmd = map str [''git'', ''-c'', ''color.ui=always'', ''log'', ''--date=iso-strict'',
     ''--no-merges'', ''--reverse'', ''--pretty=format:%h%x1e%ad%x1e%s%x1e%an'']"

text \<open>
  \<open>Git._commits\<close>: the lines of the output of \<open>git log\<close>, or no line when the process has
  no output pipe.
\<close>

definition Git_commits_lines :: "env \<Rightarrow> datetime \<Rightarrow> datetime \<Rightarrow> str list io" where
  "Git_commits_lines env start end w =
     (let args = Git_cmd @ [str ''--after='' @ str_datetime env start,
                            str ''--before='' @ str_datetime env end];
          w' = w\<lparr>trace := trace w @ [Popen args]\<rparr>
      in case popen_stdout env args (length (trace w)) of
           None \<Rightarrow> (Inr [], w')
         | Some (Inl e) \<Rightarrow> (Inl e, w')
         | Some (Inr text) \<Rightarrow> (Inr (split 10 (strip text)), w'))"

text \<open>\<open>[Commit.from_line(line) for line in lines]\<close>: the first line that fails ends it.\<close>

fun from_lines :: "str list \<Rightarrow> error + commit list" where
  "from_lines [] = Inr []"
| "from_lines (l # ls) =
     (case from_line l of
        Inl e \<Rightarrow> Inl e
      | Inr c \<Rightarrow> (case from_lines ls of Inl e \<Rightarrow> Inl e | Inr cs \<Rightarrow> Inr (c # cs)))"

definition Git_commits :: "env \<Rightarrow> datetime \<Rightarrow> datetime \<Rightarrow> commit list io" where
  "Git_commits env start end =
     bind (Git_commits_lines env start end) (\<lambda>ls w. (from_lines ls, w))"

section \<open>Listable\<close>

text \<open>The items of a report are builds or commits; each has the four members of \<open>Listable\<close>.\<close>

datatype listable = Build build | Commit commit

definition Listable_package :: "listable \<Rightarrow> error + str" where
  "Listable_package item =
     (case item of Build b \<Rightarrow> Inr (Build_package b) | Commit c \<Rightarrow> Commit_package c)"

definition Listable_date :: "env \<Rightarrow> listable \<Rightarrow> datetime io" where
  "Listable_date env item =
     (case item of Build b \<Rightarrow> Build_date env b | Commit c \<Rightarrow> (\<lambda>w. (Commit_date env c, w)))"

definition Listable_to_md :: "listable \<Rightarrow> str" where
  "Listable_to_md item = (case item of Build b \<Rightarrow> Build_to_md b | Commit c \<Rightarrow> Commit_to_md c)"

definition Listable_to_tty :: "env \<Rightarrow> listable \<Rightarrow> error + str" where
  "Listable_to_tty env item =
     (case item of Build b \<Rightarrow> Inr (Build_to_tty b) | Commit c \<Rightarrow> Commit_to_tty env c)"

section \<open>Printer\<close>

text \<open>
  The state of a \<open>Printer\<close>: the bounds of the window, as \<open>parse_date\<close> made them from the
  command line (timezone-aware instants). Its \<open>Builds\<close> and \<open>Git\<close> objects have no state.
\<close>

record printer =
  p_start :: datetime
  p_end :: datetime

text \<open>The parsed command line: \<open>cli_args.command\<close>, \<open>.format\<close>, \<open>.sort\<close> and \<open>.follow\<close>.\<close>

record cli_args =
  cli_command :: str
  cli_format :: str
  cli_sort :: bool
  cli_follow :: bool

definition Printer_items :: "env \<Rightarrow> printer \<Rightarrow> str \<Rightarrow> listable list io" where
  "Printer_items env p kind =
     (if kind = str ''builds'' then
        bind (Builds_during env (p_start p) (p_end p)) (\<lambda>bs. return (map Build bs))
      else if kind = str ''updates'' then
        bind (Builds_updates env (p_start p) (p_end p)) (\<lambda>bs. return (map Build bs))
      else if kind = str ''commits'' then
        bind (Git_commits env (p_start p) (p_end p)) (\<lambda>cs. return (map Commit cs))
      else raise (ValueError (str ''unsupported log kind: '' @ kind)))"

text \<open>\<open>[item.to_tty() for item in items]\<close>.\<close>

fun to_tty_lines :: "env \<Rightarrow> listable list \<Rightarrow> error + str list" where
  "to_tty_lines env [] = Inr []"
| "to_tty_lines env (item # items) =
     (case Listable_to_tty env item of
        Inl e \<Rightarrow> Inl e
      | Inr l \<Rightarrow> (case to_tty_lines env items of Inl e \<Rightarrow> Inl e | Inr ls \<Rightarrow> Inr (l # ls)))"

text \<open>The end of \<open>Printer._print\<close>: the lines are printed, joined, when there is an item.\<close>

definition print_lines :: "listable list \<Rightarrow> str list \<Rightarrow> unit io" where
  "print_lines items lines = (if length items > 0 then print (join [10] lines) else return ())"

text \<open>\<open>Printer._print\<close>.\<close>

definition Printer_print_items :: "env \<Rightarrow> listable list \<Rightarrow> str \<Rightarrow> unit io" where
  "Printer_print_items env items fmt =
     (if fmt = str ''tty'' then
        (case to_tty_lines env items of
           Inl e \<Rightarrow> raise e
         | Inr lines \<Rightarrow> print_lines items lines)
      else if fmt = str ''md'' then
        print_lines items (map (\<lambda>item. str ''- '' @ Listable_to_md item) items)
      else raise (ValueError (str ''unsupported format: '' @ fmt)))"

text \<open>The key of the sort, \<open>(item.package, item.date)\<close>: the package first, then the date.\<close>

definition item_key :: "env \<Rightarrow> listable \<Rightarrow> (str \<times> datetime) io" where
  "item_key env item w =
     (case Listable_package item of
        Inl e \<Rightarrow> (Inl e, w)
      | Inr p \<Rightarrow> (case Listable_date env item w of
                   (Inl e, w') \<Rightarrow> (Inl e, w')
                 | (Inr d, w') \<Rightarrow> (Inr (p, d), w')))"

text \<open>
  \<open>sorted(items, key=...)\<close> evaluates the key of every item once, in list order, and then
  sorts the items by their keys, keeping the order of items with equal keys.
\<close>

fun item_keys :: "env \<Rightarrow> listable list \<Rightarrow> (str \<times> datetime) list io" where
  "item_keys env [] w = (Inr [], w)"
| "item_keys env (item # items) w =
     (case item_key env item w of
        (Inl e, w') \<Rightarrow> (Inl e, w')
      | (Inr k, w') \<Rightarrow>
          (case item_keys env items w' of
             (Inl e, w'') \<Rightarrow> (Inl e, w'')
           | (Inr ks, w'') \<Rightarrow> (Inr (k # ks), w'')))"

definition by_keys :: "('k::linorder) list \<Rightarrow> 'a list \<Rightarrow> ('k \<times> 'a) list" where
  "by_keys ks xs = sort_key fst (zip ks xs)"

definition sorted_items :: "env \<Rightarrow> listable list \<Rightarrow> listable list io" where
  "sorted_items env items = bind (item_keys env items) (\<lambda>ks. return (map snd (by_keys ks items)))"

text \<open>\<open>Printer.print\<close>; the count line names \<open>cli_args.command\<close>.\<close>

definition Printer_print :: "env \<Rightarrow> cli_args \<Rightarrow> printer \<Rightarrow> str \<Rightarrow> str \<Rightarrow> bool \<Rightarrow> unit io" where
  "Printer_print env cli p kind fmt srt =
     bind (Printer_items env p kind) (\<lambda>items.
     bind (if srt then sorted_items env items else return items) (\<lambda>items.
     bind (print (str_nat (length items) @ str '' '' @ cli_command cli @ str '':'')) (\<lambda>_.
     Printer_print_items env items fmt)))"

text \<open>One turn of the loop of \<open>Printer.follow\<close>.\<close>

definition follow_cycle :: "env \<Rightarrow> str \<Rightarrow> str \<Rightarrow> printer \<Rightarrow> printer io" where
  "follow_cycle env kind fmt p =
     bind (now env) (\<lambda>t.
     bind (Printer_items env (p\<lparr>p_end := t\<rparr>) kind) (\<lambda>items.
     bind (Printer_print_items env items fmt) (\<lambda>_.
     bind (sleep 10) (\<lambda>_.
     return (p\<lparr>p_end := t, p_start := t\<rparr>)))))"

text \<open>
  \<open>Printer.follow\<close>: the loop has no exit, it ends when a turn raises; a run that never
  raises has no result.
\<close>

partial_function (option) Printer_follow ::
  "env \<Rightarrow> str \<Rightarrow> str \<Rightarrow> printer \<Rightarrow> world \<Rightarrow> (error \<times> world) option" where
  "Printer_follow env kind fmt p w =
     (case follow_cycle env kind fmt p w of
        (Inl e, w') \<Rightarrow> Some (e, w')
      | (Inr p', w') \<Rightarrow> Printer_follow env kind fmt p' w')"

text \<open>The last lines of the script, once the command line is parsed and the printer built.\<close>

definition main :: "env \<Rightarrow> cli_args \<Rightarrow> printer \<Rightarrow> world \<Rightarrow> ((error + unit) \<times> world) option" where
  "main env cli printer w =
     (if cli_follow cli then
        map_option (\<lambda>(e, w'). (Inl e, w'))
          (Printer_follow env (cli_command cli) (cli_format cli) printer w)
      else Some (Printer_print env cli printer (cli_command cli) (cli_format cli) (cli_sort cli) w))"

section \<open>Vocabulary of the properties\<close>

text \<open>
  \<open>evaluated_date env w w' item d\<close>: \<open>d\<close> is a value that an evaluation of \<open>item.date\<close>
  between the states \<open>w\<close> and \<open>w'\<close> gives. The date of a commit or of a finished build is
  its parsed timestamp; the date of an unfinished build is a reading of the clock made
  between the two states.
\<close>

definition evaluated_date :: "env \<Rightarrow> world \<Rightarrow> world \<Rightarrow> listable \<Rightarrow> datetime \<Rightarrow> bool" where
  "evaluated_date env w w' item d =
     (case item of
        Commit c \<Rightarrow> Commit_date env c = Inr d
      | Build b \<Rightarrow>
          (case finished b of
             Some f \<Rightarrow> fromisoformat_utc env f = Inr d
           | None \<Rightarrow> d \<in> now_utc env ` {clock w ..< clock w'}))"

text \<open>
  The first \<open>n\<close> turns of the loop of \<open>Printer.follow\<close>: the state after them, or the
  exception of the first turn that raises.
\<close>

fun follow_turns :: "nat \<Rightarrow> env \<Rightarrow> str \<Rightarrow> str \<Rightarrow> printer \<Rightarrow> printer io" where
  "follow_turns 0 env kind fmt p w = (Inr p, w)"
| "follow_turns (Suc n) env kind fmt p w =
     (case follow_cycle env kind fmt p w of
        (Inl e, w') \<Rightarrow> (Inl e, w')
      | (Inr p', w') \<Rightarrow> follow_turns n env kind fmt p' w')"

section \<open>Example data\<close>

text \<open>
  A build of a package, and a world with a given clock, feed and \<open>git log\<close> output, in
  which three timestamps parse.
\<close>

definition example_build :: "str \<Rightarrow> str \<Rightarrow> str option \<Rightarrow> build" where
  "example_build p v f =
     \<lparr>build_id = 1, pkg = p, version = v, release = str ''1'', build_ref = str ''abc1234'',
      tag = p @ str ''-'' @ v @ str ''-1'', tag_url = str ''https://example.org/'' @ p,
      log_url = str ''https://example.org/log'', status = str ''OK'',
      builder = str ''builder1'', finished = f\<rparr>"

definition example_times :: "(str \<times> datetime) list" where
  "example_times =
     [(str ''2024-05-01T10:00:00+00:00'', 1714557600000000),
      (str ''2024-05-01T10:00:10+00:00'', 1714557610000000),
      (str ''2024-05-03T10:00:00+00:00'', 1714730400000000)]"

definition example_env :: "(nat \<Rightarrow> datetime) \<Rightarrow> build list \<Rightarrow> str \<Rightarrow> env" where
  "example_env clk feed out =
     \<lparr>now_utc = clk,
      fromisoformat_utc = (\<lambda>s. case map_of example_times s of
                                  Some d \<Rightarrow> Inr d
                                | None \<Rightarrow> Inl (ValueError (str ''Invalid isoformat string''))),
      str_datetime = (\<lambda>d. str_nat (nat d)),
      urlopen_json = (\<lambda>url n. Inr feed),
      popen_stdout = (\<lambda>args n. Some (Inr out))\<rparr>"

section \<open>Properties of the text operations\<close>

lemmas example_defs = example_build_def example_times_def example_env_def str_def

lemma dropWhile_upto_sep:
  "sep \<notin> set a \<Longrightarrow> dropWhile (\<lambda>c. c \<noteq> sep) (a @ sep # rest) = sep # rest"
  by (induction a) auto

lemma takeWhile_upto_sep:
  "sep \<notin> set a \<Longrightarrow> takeWhile (\<lambda>c. c \<noteq> sep) (a @ sep # rest) = a"
  by (induction a) auto

lemma dropWhile_no_sep:
  "sep \<notin> set s \<Longrightarrow> dropWhile (\<lambda>c. c \<noteq> sep) s = []"
  by (induction s) auto

lemma split_max_first:
  "sep \<notin> set a \<Longrightarrow> split_max sep (Suc n) (a @ sep # rest) = a # split_max sep n rest"
  by (simp add: dropWhile_upto_sep takeWhile_upto_sep)

lemma split_max_none:
  "sep \<notin> set s \<Longrightarrow> split_max sep n s = [s]"
  by (cases n) (simp_all add: dropWhile_no_sep)

lemma hd_split_max_Suc:
  "\<exists>ps. split_max sep (Suc n) s = takeWhile (\<lambda>c. c \<noteq> sep) s # ps"
proof (cases "dropWhile (\<lambda>c. c \<noteq> sep) s")
  case Nil
  then have tw: "takeWhile (\<lambda>c. c \<noteq> sep) s = s"
    by (metis append_Nil2 takeWhile_dropWhile_id)
  have "split_max sep (Suc n) s = [s]"
    using Nil by (simp del: dropWhile_eq_Nil_conv)
  then show ?thesis by (simp add: tw)
next
  case (Cons x xs)
  then show ?thesis by simp
qed

section \<open>The derived attributes of a commit\<close>

text \<open>
  C3. For a subject with a colon, \<open>change\<close> is what \<open>split(':', 2)[1].strip()\<close> gives: the
  text between the first colon and the second one (or the end of the subject when there
  is no second colon), trimmed. With two colons this is not all of the text after the first
  colon: the subject \<open>foo: bar: baz\<close> has the change \<open>bar\<close>, not \<open>bar: baz\<close>.
\<close>

theorem change_between_colons:
  assumes "msg c = a @ 58 # rest" and "58 \<notin> set a"
  shows "Commit_change c = Inr (strip (takeWhile (\<lambda>x. x \<noteq> 58) rest))"
proof -
  have s: "split_max 58 2 (msg c) = a # split_max 58 (Suc 0) rest"
    using assms split_max_first [of 58 a "Suc 0" rest] by (simp add: numeral_2_eq_2)
  have "getitem (split_max 58 2 (msg c)) 1 = Inr (takeWhile (\<lambda>x. x \<noteq> 58) rest)"
    unfolding s getitem_def using hd_split_max_Suc [of 58 0 rest]
    by auto
  then show ?thesis using assms by (simp add: Commit_change_def)
qed

theorem change_between_colons_witness:
  "Commit_change \<lparr>ref = str ''abc1234'', ts = str ''2024-05-01T10:00:00+00:00'',
      msg = str ''foo: bar: baz'', author = str ''dev''\<rparr> = Inr (str ''bar'')
   \<and> str ''bar'' \<noteq> str ''bar: baz''"
  using change_between_colons [of "\<lparr>ref = str ''abc1234'', ts = str ''2024-05-01T10:00:00+00:00'',
      msg = str ''foo: bar: baz'', author = str ''dev''\<rparr>" "str ''foo''" "str '' bar: baz''"]
  by (simp add: str_def strip_def isspace_def)

text \<open>
  C6. A subject without a colon has the package \<open><unknown>\<close> and, as its change, the whole
  subject trimmed. A subject with one colon has the trimmed text before the colon as its
  package and the trimmed text after it as its change; \<open>palette: fix crash\<close> has the package
  \<open>palette\<close> and the change \<open>fix crash\<close>. Neither attribute raises.
\<close>

theorem package_and_change:
  "(58 \<notin> set (msg c) \<longrightarrow>
      Commit_package c = Inr (str ''<unknown>'') \<and> Commit_change c = Inr (strip (msg c)))
   \<and> (msg c = a @ 58 # b \<and> 58 \<notin> set a \<and> 58 \<notin> set b \<longrightarrow>
      Commit_package c = Inr (strip a) \<and> Commit_change c = Inr (strip b))
   \<and> (msg c = str ''palette: fix crash'' \<longrightarrow>
      Commit_package c = Inr (str ''palette'') \<and> Commit_change c = Inr (str ''fix crash''))"
proof (intro conjI impI)
  assume "58 \<notin> set (msg c)"
  then show "Commit_package c = Inr (str ''<unknown>'')" "Commit_change c = Inr (strip (msg c))"
    by (simp_all add: Commit_package_def Commit_change_def)
next
  assume h: "msg c = a @ 58 # b \<and> 58 \<notin> set a \<and> 58 \<notin> set b"
  then have s: "split_max 58 2 (a @ 58 # b) = [a, b]"
    using split_max_first [of 58 a "Suc 0" b] split_max_none [of 58 b 1]
    by (simp add: numeral_2_eq_2)
  show "Commit_package c = Inr (strip a)" "Commit_change c = Inr (strip b)"
    using h by (simp_all add: Commit_package_def Commit_change_def s getitem_def)
next
  assume h: "msg c = str ''palette: fix crash''"
  show "Commit_package c = Inr (str ''palette'')" "Commit_change c = Inr (str ''fix crash'')"
    by (simp_all add: h Commit_package_def Commit_change_def getitem_def str_def strip_def
        isspace_def numeral_2_eq_2)
qed

theorem package_and_change_witness:
  "Commit_package \<lparr>ref = str ''abc1234'', ts = str ''2024-05-01T10:00:00+00:00'',
      msg = str '' Fix typo '', author = str ''dev''\<rparr> = Inr (str ''<unknown>'')
   \<and> Commit_change \<lparr>ref = str ''abc1234'', ts = str ''2024-05-01T10:00:00+00:00'',
      msg = str '' Fix typo '', author = str ''dev''\<rparr> = Inr (str ''Fix typo'')
   \<and> Commit_package \<lparr>ref = str ''abc1234'', ts = str ''2024-05-01T10:00:00+00:00'',
      msg = str ''palette: fix crash'', author = str ''dev''\<rparr> = Inr (str ''palette'')
   \<and> Commit_change \<lparr>ref = str ''abc1234'', ts = str ''2024-05-01T10:00:00+00:00'',
      msg = str ''palette: fix crash'', author = str ''dev''\<rparr> = Inr (str ''fix crash'')"
  using package_and_change [of "\<lparr>ref = str ''abc1234'', ts = str ''2024-05-01T10:00:00+00:00'',
      msg = str '' Fix typo '', author = str ''dev''\<rparr>" "[]" "[]"]
    package_and_change [of "\<lparr>ref = str ''abc1234'', ts = str ''2024-05-01T10:00:00+00:00'',
      msg = str ''palette: fix crash'', author = str ''dev''\<rparr>" "str ''palette''" "str '' fix crash''"]
  by (simp add: str_def strip_def isspace_def)

section \<open>Selecting builds\<close>

lemma Build_date_cases:
  assumes "Build_date env b w = (r, w')"
  shows "trace w' = trace w"
    and "finished b = None \<Longrightarrow> r = Inr (now_utc env (clock w)) \<and> clock w' = Suc (clock w)"
    and "finished b = Some f \<Longrightarrow> r = fromisoformat_utc env f \<and> w' = w"
  using assms by (auto simp: Build_date_def now_def split: option.splits)

lemma Build_date_clock:
  "Build_date env b w = (r, w') \<Longrightarrow> clock w \<le> clock w'"
  by (auto simp: Build_date_def now_def split: option.splits)

lemma Build_date_evaluated:
  "Build_date env b w = (Inr d, w') \<Longrightarrow> evaluated_date env w w' (Build b) d"
  by (auto simp: Build_date_def now_def evaluated_date_def split: option.splits)

lemma evaluated_date_mono:
  "evaluated_date env w1 w2 item d \<Longrightarrow> clock w0 \<le> clock w1 \<Longrightarrow> clock w2 \<le> clock w3 \<Longrightarrow>
   evaluated_date env w0 w3 item d"
  by (auto simp: evaluated_date_def split: listable.splits option.splits)

lemma Builds_filter_state:
  "Builds_filter env bs s e w = (r, w') \<Longrightarrow> trace w' = trace w \<and> clock w \<le> clock w'"
proof (induction bs arbitrary: w r w')
  case Nil
  then show ?case by simp
next
  case (Cons b bs)
  obtain r1 w1 where d: "Build_date env b w = (r1, w1)" by (cases "Build_date env b w")
  note s1 = Build_date_cases(1) [OF d] Build_date_clock [OF d]
  show ?case
  proof (cases r1)
    case (Inl x)
    with Cons.prems d s1 show ?thesis by auto
  next
    case (Inr dt)
    obtain r2 w2 where f: "Builds_filter env bs s e w1 = (r2, w2)"
      by (cases "Builds_filter env bs s e w1")
    from Cons.IH [OF f] have s2: "trace w2 = trace w1" "clock w1 \<le> clock w2" by auto
    from Cons.prems d Inr f have "w' = w2" by (auto split: sum.splits)
    with s1 s2 show ?thesis by auto
  qed
qed

lemma Builds_filter_sound:
  "Builds_filter env bs s e w = (Inr rs, w') \<Longrightarrow> b \<in> set rs \<Longrightarrow>
   \<exists>d. evaluated_date env w w' (Build b) d \<and> in_window s e d"
proof (induction bs arbitrary: w rs w')
  case Nil
  then show ?case by simp
next
  case (Cons x bs)
  obtain r1 w1 where d: "Build_date env x w = (r1, w1)" by (cases "Build_date env x w")
  obtain r2 w2 where f: "Builds_filter env bs s e w1 = (r2, w2)"
    by (cases "Builds_filter env bs s e w1")
  from Cons.prems(1) d f obtain dt rs2 where
    r: "r1 = Inr dt" "r2 = Inr rs2" "w' = w2" "rs = (if in_window s e dt then x # rs2 else rs2)"
    by (auto split: sum.splits)
  have c1: "clock w \<le> clock w1" using Build_date_clock [OF d] .
  have c2: "clock w1 \<le> clock w2" using Builds_filter_state [OF f] by simp
  show ?case
  proof (cases "b \<in> set rs2")
    case True
    from Cons.IH [OF f [unfolded r] True] obtain d' where
      "evaluated_date env w1 w2 (Build b) d'" "in_window s e d'" by blast
    then show ?thesis using evaluated_date_mono [of env w1 w2 "Build b" d' w w2] c1 r by auto
  next
    case False
    with Cons.prems(2) r have "b = x" "in_window s e dt" by (auto split: if_splits)
    moreover have "evaluated_date env w w1 (Build x) dt"
      using Build_date_evaluated d r by simp
    ultimately show ?thesis
      using evaluated_date_mono [of env w w1 "Build x" dt w w2] c2 r by auto
  qed
qed

lemma Builds_filter_subseq:
  "Builds_filter env bs s e w = (Inr rs, w') \<Longrightarrow> subseq rs bs"
proof (induction bs arbitrary: w rs w')
  case Nil
  then show ?case by simp
next
  case (Cons x bs)
  obtain r1 w1 where d: "Build_date env x w = (r1, w1)" by (cases "Build_date env x w")
  obtain r2 w2 where f: "Builds_filter env bs s e w1 = (r2, w2)"
    by (cases "Builds_filter env bs s e w1")
  from Cons.prems(1) d f obtain dt rs2 where
    r: "r1 = Inr dt" "r2 = Inr rs2" "w' = w2" "rs = (if in_window s e dt then x # rs2 else rs2)"
    by (auto split: sum.splits)
  from Cons.IH [OF f [unfolded r]] show ?case using r by auto
qed

lemma Builds_filter_complete:
  "Builds_filter env bs s e w = (Inr rs, w') \<Longrightarrow> b \<in> set bs \<Longrightarrow> finished b = Some f \<Longrightarrow>
   fromisoformat_utc env f = Inr d \<Longrightarrow> in_window s e d \<Longrightarrow> b \<in> set rs"
proof (induction bs arbitrary: w rs w')
  case Nil
  then show ?case by simp
next
  case (Cons x bs)
  obtain r1 w1 where d: "Build_date env x w = (r1, w1)" by (cases "Build_date env x w")
  obtain r2 w2 where f: "Builds_filter env bs s e w1 = (r2, w2)"
    by (cases "Builds_filter env bs s e w1")
  from Cons.prems(1) d f obtain dt rs2 where
    r: "r1 = Inr dt" "r2 = Inr rs2" "w' = w2" "rs = (if in_window s e dt then x # rs2 else rs2)"
    by (auto split: sum.splits)
  show ?case
  proof (cases "b = x")
    case True
    with Cons.prems d r have "dt = d" using Build_date_cases(3) [OF d, of f] by simp
    with True Cons.prems r show ?thesis by simp
  next
    case False
    with Cons.prems have "b \<in> set bs" by simp
    from Cons.IH [OF f [unfolded r] this Cons.prems(3,4,5)] r show ?thesis by simp
  qed
qed

lemma Builds_during_result:
  assumes "Builds_during env s e w = (Inr rs, w')"
  shows "\<exists>feed. urlopen_json env Builds_url (length (trace w)) = Inr feed \<and>
           Builds_filter env feed s e (w\<lparr>trace := trace w @ [Urlopen Builds_url]\<rparr>) = (Inr rs, w')"
  using assms by (auto simp: Builds_during_def bind_def Builds_all_def split: sum.splits)

lemma Builds_updates_result:
  assumes "Builds_updates env s e w = (Inr rs, w')"
  shows "\<exists>feed. urlopen_json env Builds_url (length (trace w)) = Inr feed \<and>
           Builds_filter env (by_pkg feed) s e (w\<lparr>trace := trace w @ [Urlopen Builds_url]\<rparr>) =
             (Inr rs, w')"
  using assms
  by (auto simp: Builds_updates_def Builds_packages_def bind_def return_def Builds_all_def
      split: sum.splits)

text \<open>
  C1. Every build that the selection of builds (\<open>Builds.during\<close>) or of updates
  (\<open>Builds.updates\<close>) returns for the window from \<open>s\<close> to \<open>e\<close> was kept because the date
  \<open>d\<close> the filter evaluated for it satisfies \<open>s \<le> d\<close> and \<open>d \<le> e\<close>, both bounds included. For
  a finished build \<open>d\<close> is its parsed completion time, for an unfinished one the reading of
  the clock made by the filter.
\<close>

theorem selection_within_window:
  assumes "Builds_during env s e w = (Inr rs, w') \<or> Builds_updates env s e w = (Inr rs, w')"
    and "b \<in> set rs"
  shows "\<exists>d. evaluated_date env w w' (Build b) d \<and> s \<le> d \<and> d \<le> e"
proof -
  define w1 where "w1 = w\<lparr>trace := trace w @ [Urlopen Builds_url]\<rparr>"
  have c: "clock w1 = clock w" by (simp add: w1_def)
  from assms(1) obtain bs where f: "Builds_filter env bs s e w1 = (Inr rs, w')"
    using Builds_during_result [of env s e w rs w'] Builds_updates_result [of env s e w rs w']
    unfolding w1_def by blast
  from Builds_filter_sound [OF f assms(2)] obtain d where
    "evaluated_date env w1 w' (Build b) d" "in_window s e d" by blast
  then show ?thesis
    using evaluated_date_mono [of env w1 w' "Build b" d w w'] c by (auto simp: in_window_def)
qed

theorem selection_within_window_witness:
  "\<exists>d. evaluated_date
         (example_env (\<lambda>k. 1714557605000000)
            [example_build (str ''alpha'') (str ''1.0'') (Some (str ''2024-05-01T10:00:00+00:00'')),
             example_build (str ''beta'') (str ''2.0'') (Some (str ''2024-05-03T10:00:00+00:00'')),
             example_build (str ''gamma'') (str ''3.0'') None] [])
         \<lparr>clock = 0, trace = []\<rparr> \<lparr>clock = 1, trace = [Urlopen Builds_url]\<rparr>
         (Build (example_build (str ''gamma'') (str ''3.0'') None)) d
       \<and> 1714557600000000 \<le> d \<and> d \<le> 1714557610000000"
proof -
  let ?a = "example_build (str ''alpha'') (str ''1.0'') (Some (str ''2024-05-01T10:00:00+00:00''))"
  let ?b = "example_build (str ''beta'') (str ''2.0'') (Some (str ''2024-05-03T10:00:00+00:00''))"
  let ?c = "example_build (str ''gamma'') (str ''3.0'') None"
  let ?env = "example_env (\<lambda>k. 1714557605000000) [?a, ?b, ?c] []"
  have h: "Builds_during ?env 1714557600000000 1714557610000000 \<lparr>clock = 0, trace = []\<rparr> =
      (Inr [?a, ?c], \<lparr>clock = 1, trace = [Urlopen Builds_url]\<rparr>)"
    by (simp add: Builds_during_def bind_def Builds_all_def Build_date_def now_def in_window_def
        example_defs)
  have m: "?c \<in> set [?a, ?c]" by simp
  show ?thesis
    using selection_within_window [OF disjI1 [OF h] m] .
qed

section \<open>The latest build of each package\<close>

lemma keys_setitem:
  "map fst (setitem k v d) = (if k \<in> set (map fst d) then map fst d else map fst d @ [k])"
proof (induction d)
  case Nil
  then show ?case by simp
next
  case (Cons p d)
  obtain k' v' where p: "p = (k', v')" by (cases p)
  show ?case
  proof (cases "k' = k")
    case True
    with p show ?thesis by simp
  next
    case False
    with p Cons.IH show ?thesis by simp
  qed
qed

lemma map_of_setitem:
  "map_of (setitem k v d) = (map_of d)(k \<mapsto> v)"
  by (induction d) (auto simp: fun_eq_iff)

lemma pkg_dict_snoc: "pkg_dict (bs @ [b]) = setitem (pkg b) b (pkg_dict bs)"
  by (simp add: pkg_dict_def)

lemma keys_pkg_dict: "map fst (pkg_dict bs) = rev (remdups (rev (map pkg bs)))"
proof (induction bs rule: rev_induct)
  case Nil
  then show ?case by (simp add: pkg_dict_def)
next
  case (snoc b bs)
  have "set (map fst (pkg_dict bs)) = set (map pkg bs)"
    using snoc.IH by simp
  then show ?case using snoc.IH by (auto simp: pkg_dict_snoc keys_setitem)
qed

lemma distinct_pkg_dict: "distinct (map fst (pkg_dict bs))"
  by (simp add: keys_pkg_dict)

lemma map_of_pkg_dict:
  "map_of (pkg_dict bs) k =
     (if k \<in> set (map pkg bs) then Some (last (filter (\<lambda>x. pkg x = k) bs)) else None)"
proof (induction bs rule: rev_induct)
  case Nil
  then show ?case by (simp add: pkg_dict_def)
next
  case (snoc b bs)
  then show ?case by (auto simp: pkg_dict_snoc map_of_setitem)
qed

lemma pkg_dict_entry:
  assumes "(k, v) \<in> set (pkg_dict bs)"
  shows "k = pkg v \<and> v \<in> set bs \<and> v = last (filter (\<lambda>x. pkg x = k) bs)"
proof -
  from assms have m: "map_of (pkg_dict bs) k = Some v"
    using distinct_pkg_dict by simp
  then have k: "k \<in> set (map pkg bs)" and v: "v = last (filter (\<lambda>x. pkg x = k) bs)"
    by (auto simp: map_of_pkg_dict split: if_splits)
  from k have ne: "filter (\<lambda>x. pkg x = k) bs \<noteq> []"
    by (auto simp: filter_empty_conv)
  from last_in_set [OF ne] v show ?thesis by auto
qed

lemma pkg_by_pkg: "map pkg (by_pkg bs) = map fst (pkg_dict bs)"
proof -
  have "\<forall>p \<in> set (pkg_dict bs). pkg (snd p) = fst p"
  proof
    fix p assume "p \<in> set (pkg_dict bs)"
    then have "(fst p, snd p) \<in> set (pkg_dict bs)" by simp
    from pkg_dict_entry [OF this] have "fst p = pkg (snd p)" by (rule conjunct1)
    then show "pkg (snd p) = fst p" by (rule sym)
  qed
  then show ?thesis by (simp add: by_pkg_def)
qed

lemma by_pkg_last:
  assumes "b \<in> set (by_pkg bs)"
  shows "b \<in> set bs \<and> b = last (filter (\<lambda>x. pkg x = pkg b) bs)"
proof -
  from assms obtain k where "(k, b) \<in> set (pkg_dict bs)"
    by (auto simp: by_pkg_def)
  from pkg_dict_entry [OF this] show ?thesis by blast
qed

lemma subseq_keeps_distinct:
  "subseq xs ys \<Longrightarrow> distinct ys \<Longrightarrow> distinct xs"
proof (induction rule: list_emb.induct)
  case (list_emb_Cons2 x y xs ys)
  have "x \<notin> set xs"
  proof
    assume "x \<in> set xs"
    with list_emb_Cons2.hyps(2) have "x \<in> set ys" by (auto dest: list_emb_set)
    with list_emb_Cons2.hyps(1) list_emb_Cons2.prems show False by simp
  qed
  with list_emb_Cons2 show ?case by simp
qed simp_all

text \<open>
  C2. The updates view of a feed has at most one build for each package name; each
  build it returns is the last one in feed order among the builds of its package; the
  deduplicated sequence \<open>by_pkg feed\<close>, of which the view is a subsequence, lists the
  packages in the order in which the feed first mentions them.
\<close>

theorem updates_latest_per_package:
  assumes "urlopen_json env Builds_url (length (trace w)) = Inr feed"
    and "Builds_updates env s e w = (Inr rs, w')"
  shows "distinct (map pkg rs)
    \<and> (\<forall>b \<in> set rs. b \<in> set feed \<and> b = last (filter (\<lambda>x. pkg x = pkg b) feed))
    \<and> subseq rs (by_pkg feed)
    \<and> map pkg (by_pkg feed) = rev (remdups (rev (map pkg feed)))"
proof -
  from Builds_updates_result [OF assms(2)] assms(1) obtain w1 where
    "Builds_filter env (by_pkg feed) s e w1 = (Inr rs, w')" by auto
  then have sub: "subseq rs (by_pkg feed)" by (rule Builds_filter_subseq)
  have keys: "map pkg (by_pkg feed) = rev (remdups (rev (map pkg feed)))"
    by (simp add: pkg_by_pkg keys_pkg_dict)
  have "subseq (map pkg rs) (map pkg (by_pkg feed))"
    using sub by (rule subseq_map)
  moreover have "distinct (map pkg (by_pkg feed))" by (simp add: keys)
  ultimately have "distinct (map pkg rs)" by (rule subseq_keeps_distinct)
  moreover have "\<forall>b \<in> set rs. b \<in> set feed \<and> b = last (filter (\<lambda>x. pkg x = pkg b) feed)"
  proof
    fix b assume "b \<in> set rs"
    with sub have "b \<in> set (by_pkg feed)" by (auto dest: list_emb_set)
    then show "b \<in> set feed \<and> b = last (filter (\<lambda>x. pkg x = pkg b) feed)"
      by (rule by_pkg_last)
  qed
  ultimately show ?thesis using sub keys by blast
qed

theorem updates_latest_per_package_witness:
  "distinct (map pkg
      [example_build (str ''alpha'') (str ''1.1'') (Some (str ''2024-05-01T10:00:10+00:00''))])
   \<and> example_build (str ''alpha'') (str ''1.1'') (Some (str ''2024-05-01T10:00:10+00:00'')) =
       last (filter (\<lambda>x. pkg x = str ''alpha'')
         [example_build (str ''alpha'') (str ''1.0'') (Some (str ''2024-05-01T10:00:00+00:00'')),
          example_build (str ''beta'') (str ''2.0'') (Some (str ''2024-05-03T10:00:00+00:00'')),
          example_build (str ''alpha'') (str ''1.1'') (Some (str ''2024-05-01T10:00:10+00:00''))])
   \<and> map pkg (by_pkg
         [example_build (str ''alpha'') (str ''1.0'') (Some (str ''2024-05-01T10:00:00+00:00'')),
          example_build (str ''beta'') (str ''2.0'') (Some (str ''2024-05-03T10:00:00+00:00'')),
          example_build (str ''alpha'') (str ''1.1'') (Some (str ''2024-05-01T10:00:10+00:00''))])
       = [str ''alpha'', str ''beta'']"
proof -
  let ?a = "example_build (str ''alpha'') (str ''1.0'') (Some (str ''2024-05-01T10:00:00+00:00''))"
  let ?b = "example_build (str ''beta'') (str ''2.0'') (Some (str ''2024-05-03T10:00:00+00:00''))"
  let ?c = "example_build (str ''alpha'') (str ''1.1'') (Some (str ''2024-05-01T10:00:10+00:00''))"
  let ?env = "example_env (\<lambda>k. 1714557605000000) [?a, ?b, ?c] []"
  let ?w = "\<lparr>clock = 0, trace = []\<rparr>"
  have f: "urlopen_json ?env Builds_url (length (trace ?w)) = Inr [?a, ?b, ?c]"
    by (simp add: example_env_def)
  have h: "Builds_updates ?env 1714557600000000 1714557610000000 ?w =
      (Inr [?c], \<lparr>clock = 0, trace = [Urlopen Builds_url]\<rparr>)"
    by (simp add: Builds_updates_def Builds_packages_def by_pkg_def pkg_dict_def bind_def return_def
        Builds_all_def Build_date_def now_def in_window_def example_defs)
  have p: "pkg ?c = str ''alpha''" by (simp add: example_build_def)
  have r: "rev (remdups (rev (map pkg [?a, ?b, ?c]))) = [str ''alpha'', str ''beta'']"
    by (simp add: example_defs)
  from updates_latest_per_package [OF f h] show ?thesis
    unfolding r by (simp add: p)
qed

section \<open>Commits of an empty history\<close>

lemma from_line_empty: "from_line [] = Inl TypeError"
  by (simp add: from_line_def)

text \<open>
  C4. When \<open>git log\<close> prints nothing (or white space only), \<open>Git.commits\<close> does not return
  the empty list: the text splits into the one line \<open>''\<close>, which has one field and not
  four, and building the commit from it raises \<open>TypeError\<close>.
\<close>

theorem commits_of_empty_output:
  assumes "popen_stdout env
      (Git_cmd @ [str ''--after='' @ str_datetime env start,
                  str ''--before='' @ str_datetime env end]) (length (trace w)) = Some (Inr out)"
    and "strip out = []"
  shows "fst (Git_commits env start end w) = Inl TypeError"
  using assms
  by (simp add: Git_commits_def Git_commits_lines_def bind_def Let_def from_line_def)

theorem commits_of_empty_output_witness:
  "fst (Git_commits (example_env (\<lambda>k. 1714557605000000) [] [])
          1714557600000000 1714557610000000 \<lparr>clock = 0, trace = []\<rparr>) = Inl TypeError
   \<and> fst (Git_commits (example_env (\<lambda>k. 1714557605000000) [] [])
          1714557600000000 1714557610000000 \<lparr>clock = 0, trace = []\<rparr>) \<noteq> Inr []"
proof -
  let ?env = "example_env (\<lambda>k. 1714557605000000) [] []"
  have p: "popen_stdout ?env
      (Git_cmd @ [str ''--after='' @ str_datetime ?env 1714557600000000,
                  str ''--before='' @ str_datetime ?env 1714557610000000])
      (length (trace \<lparr>clock = 0, trace = []\<rparr>)) = Some (Inr [])"
    by (simp add: example_env_def)
  have s: "strip [] = []" by (simp add: strip_def)
  from commits_of_empty_output [OF p s] show ?thesis by simp
qed

section \<open>Unsupported kinds and formats\<close>

text \<open>
  C9. A kind other than \<open>builds\<close>, \<open>updates\<close> and \<open>commits\<close> makes the selection raise
  the \<open>ValueError\<close> for an unsupported kind and leaves the world as it was: nothing is
  fetched, no process is run, the clock is not read. A format other than \<open>tty\<close> and \<open>md\<close>
  makes the rendering raise the \<open>ValueError\<close> for an unsupported format and leaves the
  world as it was: no line of an item is printed.
\<close>

theorem unsupported_kind_and_format:
  "(kind \<notin> {str ''builds'', str ''updates'', str ''commits''} \<longrightarrow>
      Printer_items env p kind w = (Inl (ValueError (str ''unsupported log kind: '' @ kind)), w))
   \<and> (fmt \<notin> {str ''tty'', str ''md''} \<longrightarrow>
      Printer_print_items env items fmt w =
        (Inl (ValueError (str ''unsupported format: '' @ fmt)), w))"
  by (simp add: Printer_items_def Printer_print_items_def raise_def)

theorem unsupported_kind_and_format_witness:
  "Printer_items (example_env (\<lambda>k. 1714557605000000) [] [])
      \<lparr>p_start = 1714557600000000, p_end = 1714557610000000\<rparr> (str ''packages'')
      \<lparr>clock = 0, trace = []\<rparr> =
     (Inl (ValueError (str ''unsupported log kind: packages'')), \<lparr>clock = 0, trace = []\<rparr>)
   \<and> Printer_print_items (example_env (\<lambda>k. 1714557605000000) [] [])
      [Build (example_build (str ''alpha'') (str ''1.0'') None)] (str ''html'')
      \<lparr>clock = 0, trace = []\<rparr> =
     (Inl (ValueError (str ''unsupported format: html'')), \<lparr>clock = 0, trace = []\<rparr>)"
  using unsupported_kind_and_format [of "str ''packages''"
      "example_env (\<lambda>k. 1714557605000000) [] []"
      "\<lparr>p_start = 1714557600000000, p_end = 1714557610000000\<rparr>" "\<lparr>clock = 0, trace = []\<rparr>"
      "str ''html''" "[Build (example_build (str ''alpha'') (str ''1.0'') None)]"]
  by (simp add: str_def)

section \<open>The report of an empty selection\<close>

lemma sorted_items_Nil: "sorted_items env [] w = (Inr [], w)"
  by (simp add: sorted_items_def bind_def return_def by_keys_def)

lemma Printer_print_items_Nil:
  "Printer_print_items env [] fmt w =
     ((if fmt \<in> {str ''tty'', str ''md''} then Inr ()
       else Inl (ValueError (str ''unsupported format: '' @ fmt))), w)"
  by (simp add: Printer_print_items_def print_lines_def return_def raise_def)

text \<open>
  When the selection is empty, a one-shot run prints the count line and nothing after it.
  The selections of builds and of updates are empty when no build lies in the window.
\<close>

lemma empty_selection_count_line:
  assumes "\<not> cli_follow cli"
    and "Printer_items env p (cli_command cli) w = (Inr [], w1)"
  shows "main env cli p w =
     Some ((if cli_format cli \<in> {str ''tty'', str ''md''} then Inr ()
            else Inl (ValueError (str ''unsupported format: '' @ cli_format cli))),
           w1\<lparr>trace := trace w1 @ [Print (str ''0 '' @ cli_command cli @ str '':'')]\<rparr>)"
proof -
  have "(if cli_sort cli then sorted_items env [] else return []) w1 = (Inr [], w1)"
    by (simp add: sorted_items_Nil return_def)
  then have "Printer_print env cli p (cli_command cli) (cli_format cli) (cli_sort cli) w =
      Printer_print_items env [] (cli_format cli)
        (w1\<lparr>trace := trace w1 @ [Print (str ''0 '' @ cli_command cli @ str '':'')]\<rparr>)"
    using assms(2)
    by (simp add: Printer_print_def bind_def print_def str_def)
  then show ?thesis
    using assms(1) by (simp add: main_def Printer_print_items_Nil)
qed

lemma empty_selection_count_line_example:
  "main (example_env (\<lambda>k. 1714557605000000) [] [])
      \<lparr>cli_command = str ''builds'', cli_format = str ''tty'', cli_sort = True, cli_follow = False\<rparr>
      \<lparr>p_start = 1714557600000000, p_end = 1714557610000000\<rparr> \<lparr>clock = 0, trace = []\<rparr> =
     Some (Inr (), \<lparr>clock = 0, trace = [Urlopen Builds_url, Print (str ''0 builds:'')]\<rparr>)"
proof -
  let ?env = "example_env (\<lambda>k. 1714557605000000) [] []"
  let ?cli = "\<lparr>cli_command = str ''builds'', cli_format = str ''tty'', cli_sort = True,
      cli_follow = False\<rparr>"
  let ?p = "\<lparr>p_start = 1714557600000000, p_end = 1714557610000000\<rparr>"
  have f: "\<not> cli_follow ?cli" by simp
  have i: "Printer_items ?env ?p (cli_command ?cli) \<lparr>clock = 0, trace = []\<rparr> =
      (Inr [], \<lparr>clock = 0, trace = [Urlopen Builds_url]\<rparr>)"
    by (simp add: Printer_items_def Builds_during_def Builds_all_def bind_def return_def
        example_env_def)
  from empty_selection_count_line [OF f i] show ?thesis by (simp add: str_def)
qed

section \<open>Sorting the items\<close>

lemma Listable_date_evaluated:
  assumes "Listable_date env item w = (Inr d, w')"
  shows "evaluated_date env w w' item d \<and> clock w \<le> clock w'"
proof (cases item)
  case (Build b)
  with assms have d: "Build_date env b w = (Inr d, w')" by (simp add: Listable_date_def)
  from Build_date_evaluated [OF d] Build_date_clock [OF d] Build show ?thesis by simp
next
  case (Commit c)
  with assms show ?thesis by (auto simp: Listable_date_def evaluated_date_def)
qed

lemma item_key_result:
  assumes "item_key env item w = (Inr k, w')"
  shows "Listable_package item = Inr (fst k) \<and> evaluated_date env w w' item (snd k) \<and>
         clock w \<le> clock w'"
proof -
  from assms obtain p d where
    p: "Listable_package item = Inr p" and d: "Listable_date env item w = (Inr d, w')"
    and k: "k = (p, d)"
    by (auto simp: item_key_def split: sum.splits prod.splits)
  from Listable_date_evaluated [OF d] p k show ?thesis by simp
qed

lemma item_key_clock:
  "item_key env item w = (r, w') \<Longrightarrow> clock w \<le> clock w'"
  by (cases item)
     (auto simp: item_key_def Listable_date_def Build_date_def now_def
           split: sum.splits prod.splits option.splits)

lemma item_keys_clock:
  "item_keys env items w = (r, w') \<Longrightarrow> clock w \<le> clock w'"
proof (induction items arbitrary: w r w')
  case Nil
  then show ?case by simp
next
  case (Cons item items)
  obtain r1 w1 where k: "item_key env item w = (r1, w1)" by (cases "item_key env item w")
  note c1 = item_key_clock [OF k]
  show ?case
  proof (cases r1)
    case (Inl e)
    with Cons.prems k c1 show ?thesis by auto
  next
    case (Inr key)
    obtain r2 w2 where ks: "item_keys env items w1 = (r2, w2)"
      by (cases "item_keys env items w1")
    from Cons.prems k Inr ks have "w' = w2" by (auto split: sum.splits)
    with Cons.IH [OF ks] c1 show ?thesis by simp
  qed
qed

lemma item_keys_result:
  "item_keys env items w = (Inr ks, w') \<Longrightarrow>
   list_all2 (\<lambda>item k. Listable_package item = Inr (fst k) \<and>
                        evaluated_date env w w' item (snd k)) items ks"
proof (induction items arbitrary: w ks w')
  case Nil
  then show ?case by simp
next
  case (Cons item items)
  obtain r1 w1 where k: "item_key env item w = (r1, w1)" by (cases "item_key env item w")
  obtain r2 w2 where r: "item_keys env items w1 = (r2, w2)"
    by (cases "item_keys env items w1")
  from Cons.prems k r obtain key ks2 where
    e: "r1 = Inr key" "r2 = Inr ks2" "w' = w2" "ks = key # ks2"
    by (auto split: sum.splits)
  have c1: "clock w \<le> clock w1" using item_key_clock [OF k] .
  have c2: "clock w1 \<le> clock w2" using item_keys_clock [OF r] .
  from item_key_result [OF k [unfolded e]] have
    h: "Listable_package item = Inr (fst key)" "evaluated_date env w w1 item (snd key)" by auto
  have h2: "evaluated_date env w w2 item (snd key)"
    using evaluated_date_mono [OF h(2), of w w2] c2 by simp
  have "list_all2 (\<lambda>item k. Listable_package item = Inr (fst k) \<and>
                        evaluated_date env w1 w2 item (snd k)) items ks2"
    using Cons.IH [OF r [unfolded e]] .
  then have "list_all2 (\<lambda>item k. Listable_package item = Inr (fst k) \<and>
                        evaluated_date env w w2 item (snd k)) items ks2"
    by (rule list_all2_mono) (use evaluated_date_mono c1 in auto)
  with h(1) h2 e show ?case by simp
qed

lemma by_keys_props:
  assumes "length ks = length xs"
  shows "mset (map snd (by_keys ks xs)) = mset xs"
    and "sorted (map fst (by_keys ks xs))"
    and "mset (by_keys ks xs) = mset (zip ks xs)"
    and "filter (\<lambda>x. fst x = k) (by_keys ks xs) = filter (\<lambda>x. fst x = k) (zip ks xs)"
proof -
  have "mset (map snd (by_keys ks xs)) = mset (map snd (zip ks xs))"
    by (simp add: by_keys_def)
  then show "mset (map snd (by_keys ks xs)) = mset xs" using assms by simp
  show "sorted (map fst (by_keys ks xs))" by (simp add: by_keys_def)
  show "mset (by_keys ks xs) = mset (zip ks xs)" by (simp add: by_keys_def)
  show "filter (\<lambda>x. fst x = k) (by_keys ks xs) = filter (\<lambda>x. fst x = k) (zip ks xs)"
    unfolding by_keys_def by (rule sort_key_stable)
qed

lemma sorted_pairs_order:
  fixes ps :: "((str \<times> datetime) \<times> 'a) list"
  assumes "sorted (map fst ps)" and "i < j" and "j < length ps"
  shows "fst (fst (ps ! i)) < fst (fst (ps ! j)) \<or>
         (fst (fst (ps ! i)) = fst (fst (ps ! j)) \<and> snd (fst (ps ! i)) \<le> snd (fst (ps ! j)))"
proof -
  from assms have "map fst ps ! i \<le> map fst ps ! j"
    by (simp add: sorted_iff_nth_mono_less)
  with assms have "fst (ps ! i) \<le> fst (ps ! j)" by simp
  then show ?thesis
    by (cases "fst (ps ! i)"; cases "fst (ps ! j)") (auto simp: less_eq_prod_def)
qed

lemma sorted_items_props:
  assumes "sorted_items env items w = (Inr rs, w')"
  shows "\<exists>ks. item_keys env items w = (Inr ks, w')
      \<and> list_all2 (\<lambda>item k. Listable_package item = Inr (fst k) \<and>
                               evaluated_date env w w' item (snd k)) items ks
      \<and> rs = map snd (by_keys ks items)
      \<and> mset rs = mset items
      \<and> mset (by_keys ks items) = mset (zip ks items)
      \<and> (\<forall>i j. i < j \<and> j < length items \<longrightarrow>
            fst (fst (by_keys ks items ! i)) < fst (fst (by_keys ks items ! j)) \<or>
            (fst (fst (by_keys ks items ! i)) = fst (fst (by_keys ks items ! j)) \<and>
             snd (fst (by_keys ks items ! i)) \<le> snd (fst (by_keys ks items ! j))))
      \<and> (\<forall>k. filter (\<lambda>x. fst x = k) (by_keys ks items) = filter (\<lambda>x. fst x = k) (zip ks items))"
proof -
  from assms obtain ks where
    ks: "item_keys env items w = (Inr ks, w')" and rs: "rs = map snd (by_keys ks items)"
    by (auto simp: sorted_items_def bind_def return_def split: sum.splits prod.splits)
  note la = item_keys_result [OF ks]
  then have len: "length ks = length items" by (simp add: list_all2_lengthD)
  note p = by_keys_props [OF len]
  have l2: "length (by_keys ks items) = length items"
    using len by (simp add: by_keys_def)
  have ord: "\<forall>i j. i < j \<and> j < length items \<longrightarrow>
            fst (fst (by_keys ks items ! i)) < fst (fst (by_keys ks items ! j)) \<or>
            (fst (fst (by_keys ks items ! i)) = fst (fst (by_keys ks items ! j)) \<and>
             snd (fst (by_keys ks items ! i)) \<le> snd (fst (by_keys ks items ! j)))"
    using sorted_pairs_order [OF p(2)] l2 by simp
  show ?thesis
    using ks la rs p(1) p(3) p(4) ord by (intro exI [of _ ks]) simp
qed

section \<open>The date of an unfinished build\<close>

lemma Build_date_unfinished:
  "finished b = None \<Longrightarrow>
   Build_date env b w = (Inr (now_utc env (clock w)), w\<lparr>clock := Suc (clock w)\<rparr>)"
  by (simp add: Build_date_def now_def)

lemma filter_then_key_unfinished:
  assumes "finished b = None"
    and "urlopen_json env Builds_url (length (trace w)) = Inr [b]"
    and "in_window (p_start p) (p_end p) (now_utc env (clock w))"
  shows "bind (Printer_items env p (str ''builds'')) (item_keys env) w =
     (Inr [(pkg b, now_utc env (Suc (clock w)))],
      w\<lparr>trace := trace w @ [Urlopen Builds_url], clock := Suc (Suc (clock w))\<rparr>)"
  using assms
  by (simp add: Printer_items_def Builds_during_def Builds_all_def bind_def return_def
      Build_date_unfinished item_key_def Listable_package_def Listable_date_def
      Build_package_def)

lemma runs_disagree:
  "main (example_env (\<lambda>k. 1714557605000000) [example_build (str ''gamma'') (str ''3.0'') None] [])
      \<lparr>cli_command = str ''builds'', cli_format = str ''md'', cli_sort = False, cli_follow = False\<rparr>
      \<lparr>p_start = 1714557600000000, p_end = 1714557610000000\<rparr> \<lparr>clock = 0, trace = []\<rparr> \<noteq>
   main (example_env (\<lambda>k. 1714730400000000) [example_build (str ''gamma'') (str ''3.0'') None] [])
      \<lparr>cli_command = str ''builds'', cli_format = str ''md'', cli_sort = False, cli_follow = False\<rparr>
      \<lparr>p_start = 1714557600000000, p_end = 1714557610000000\<rparr> \<lparr>clock = 0, trace = []\<rparr>"
  by (simp add: main_def Printer_print_def Printer_items_def Builds_during_def Builds_all_def
      bind_def return_def Build_date_def now_def in_window_def print_def
      Printer_print_items_def print_lines_def example_build_def example_env_def str_def)

text \<open>
  C10. The date of a build without completion time is the reading of the clock made at
  that access, so two accesses in a row give two successive readings. In a sorted report
  of builds the filter sees one reading and the sort key the next one, which need not lie
  in the window. The output depends on the clock: two runs over the same feed, window and
  command line, with clocks that differ, print different reports.
\<close>

theorem unfinished_build_date_reads_clock:
  "(finished b = None \<longrightarrow>
      Build_date env b w = (Inr (now_utc env (clock w)), w\<lparr>clock := Suc (clock w)\<rparr>)
      \<and> bind (Build_date env b) (\<lambda>d1. bind (Build_date env b) (\<lambda>d2. return (d1, d2))) w =
          (Inr (now_utc env (clock w), now_utc env (Suc (clock w))),
           w\<lparr>clock := Suc (Suc (clock w))\<rparr>))
   \<and> (finished b = None \<and> urlopen_json env Builds_url (length (trace w)) = Inr [b] \<and>
      in_window (p_start p) (p_end p) (now_utc env (clock w)) \<longrightarrow>
      bind (Printer_items env p (str ''builds'')) (item_keys env) w =
        (Inr [(pkg b, now_utc env (Suc (clock w)))],
         w\<lparr>trace := trace w @ [Urlopen Builds_url], clock := Suc (Suc (clock w))\<rparr>))
   \<and> main (example_env (\<lambda>k. 1714557605000000) [example_build (str ''gamma'') (str ''3.0'') None] [])
        \<lparr>cli_command = str ''builds'', cli_format = str ''md'', cli_sort = False, cli_follow = False\<rparr>
        \<lparr>p_start = 1714557600000000, p_end = 1714557610000000\<rparr> \<lparr>clock = 0, trace = []\<rparr> \<noteq>
      main (example_env (\<lambda>k. 1714730400000000) [example_build (str ''gamma'') (str ''3.0'') None] [])
        \<lparr>cli_command = str ''builds'', cli_format = str ''md'', cli_sort = False, cli_follow = False\<rparr>
        \<lparr>p_start = 1714557600000000, p_end = 1714557610000000\<rparr> \<lparr>clock = 0, trace = []\<rparr>"
proof (intro conjI impI)
  assume f: "finished b = None"
  show "Build_date env b w = (Inr (now_utc env (clock w)), w\<lparr>clock := Suc (clock w)\<rparr>)"
    using f by (rule Build_date_unfinished)
  show "bind (Build_date env b) (\<lambda>d1. bind (Build_date env b) (\<lambda>d2. return (d1, d2))) w =
          (Inr (now_utc env (clock w), now_utc env (Suc (clock w))),
           w\<lparr>clock := Suc (Suc (clock w))\<rparr>)"
    using f by (simp add: bind_def return_def Build_date_unfinished)
next
  assume "finished b = None \<and> urlopen_json env Builds_url (length (trace w)) = Inr [b] \<and>
      in_window (p_start p) (p_end p) (now_utc env (clock w))"
  then show "bind (Printer_items env p (str ''builds'')) (item_keys env) w =
        (Inr [(pkg b, now_utc env (Suc (clock w)))],
         w\<lparr>trace := trace w @ [Urlopen Builds_url], clock := Suc (Suc (clock w))\<rparr>)"
    using filter_then_key_unfinished by blast
next
  show "main (example_env (\<lambda>k. 1714557605000000) [example_build (str ''gamma'') (str ''3.0'') None] [])
        \<lparr>cli_command = str ''builds'', cli_format = str ''md'', cli_sort = False, cli_follow = False\<rparr>
        \<lparr>p_start = 1714557600000000, p_end = 1714557610000000\<rparr> \<lparr>clock = 0, trace = []\<rparr> \<noteq>
      main (example_env (\<lambda>k. 1714730400000000) [example_build (str ''gamma'') (str ''3.0'') None] [])
        \<lparr>cli_command = str ''builds'', cli_format = str ''md'', cli_sort = False, cli_follow = False\<rparr>
        \<lparr>p_start = 1714557600000000, p_end = 1714557610000000\<rparr> \<lparr>clock = 0, trace = []\<rparr>"
    by (rule runs_disagree)
qed

theorem unfinished_build_date_reads_clock_witness:
  "bind (Printer_items
           (example_env (\<lambda>k. if k = 0 then 1714557605000000 else 1714730400000000)
              [example_build (str ''gamma'') (str ''3.0'') None] [])
           \<lparr>p_start = 1714557600000000, p_end = 1714557610000000\<rparr> (str ''builds''))
        (item_keys (example_env (\<lambda>k. if k = 0 then 1714557605000000 else 1714730400000000)
              [example_build (str ''gamma'') (str ''3.0'') None] []))
        \<lparr>clock = 0, trace = []\<rparr> =
     (Inr [(str ''gamma'', 1714730400000000)], \<lparr>clock = 2, trace = [Urlopen Builds_url]\<rparr>)
   \<and> \<not> in_window 1714557600000000 1714557610000000 1714730400000000"
proof -
  let ?b = "example_build (str ''gamma'') (str ''3.0'') None"
  let ?env = "example_env (\<lambda>k. if k = 0 then 1714557605000000 else 1714730400000000) [?b] []"
  let ?p = "\<lparr>p_start = 1714557600000000, p_end = 1714557610000000\<rparr>"
  let ?w = "\<lparr>clock = 0, trace = []\<rparr>"
  have h: "finished ?b = None \<and> urlopen_json ?env Builds_url (length (trace ?w)) = Inr [?b] \<and>
      in_window (p_start ?p) (p_end ?p) (now_utc ?env (clock ?w))"
    by (simp add: example_build_def example_env_def in_window_def)
  have "bind (Printer_items ?env ?p (str ''builds'')) (item_keys ?env) ?w =
        (Inr [(pkg ?b, now_utc ?env (Suc (clock ?w)))],
         ?w\<lparr>trace := trace ?w @ [Urlopen Builds_url], clock := Suc (Suc (clock ?w))\<rparr>)"
    using unfinished_build_date_reads_clock [of ?b ?env ?w ?p] h by blast
  then show ?thesis
    by (simp add: example_build_def example_env_def in_window_def numeral_2_eq_2)
qed

section \<open>Follow mode\<close>

lemma follow_cycle_result:
  assumes "follow_cycle env kind fmt p w = (Inr p', w')"
  shows "\<exists>items wa wb.
      Printer_items env (p\<lparr>p_end := now_utc env (clock w)\<rparr>) kind (w\<lparr>clock := Suc (clock w)\<rparr>) =
        (Inr items, wa)
      \<and> Printer_print_items env items fmt wa = (Inr (), wb)
      \<and> w' = wb\<lparr>trace := trace wb @ [Sleep 10]\<rparr>
      \<and> p' = p\<lparr>p_end := now_utc env (clock w), p_start := now_utc env (clock w)\<rparr>"
  using assms
  by (auto simp: follow_cycle_def bind_def now_def sleep_def return_def
      split: sum.splits prod.splits)

lemma Printer_items_builds:
  assumes "Printer_items env p (str ''builds'') w = (Inr items, w')"
  shows "\<exists>feed rs. urlopen_json env Builds_url (length (trace w)) = Inr feed
      \<and> Builds_filter env feed (p_start p) (p_end p) (w\<lparr>trace := trace w @ [Urlopen Builds_url]\<rparr>) =
          (Inr rs, w')
      \<and> items = map Build rs"
proof -
  from assms obtain rs where
    d: "Builds_during env (p_start p) (p_end p) w = (Inr rs, w')" and i: "items = map Build rs"
    by (auto simp: Printer_items_def bind_def return_def split: sum.splits prod.splits)
  from Builds_during_result [OF d] i show ?thesis by blast
qed

lemma boundary_build_selected:
  assumes "Printer_items env p (str ''builds'') w = (Inr items, w')"
    and "urlopen_json env Builds_url (length (trace w)) = Inr feed"
    and "b \<in> set feed" and "finished b = Some f" and "fromisoformat_utc env f = Inr d"
    and "in_window (p_start p) (p_end p) d"
  shows "Build b \<in> set items"
proof -
  from Printer_items_builds [OF assms(1)] assms(2) obtain rs where
    f: "Builds_filter env feed (p_start p) (p_end p) (w\<lparr>trace := trace w @ [Urlopen Builds_url]\<rparr>) =
          (Inr rs, w')" and i: "items = map Build rs" by auto
  from Builds_filter_complete [OF f assms(3,4,5,6)] i show ?thesis by simp
qed

lemma follow_turns_raises:
  "follow_turns n env kind fmt p w = (Inl e, w') \<Longrightarrow>
   Printer_follow env kind fmt p w = Some (e, w')"
proof (induction n arbitrary: p w)
  case 0
  then show ?case by simp
next
  case (Suc n)
  obtain r w1 where c: "follow_cycle env kind fmt p w = (r, w1)"
    by (cases "follow_cycle env kind fmt p w")
  show ?case
  proof (cases r)
    case (Inl x)
    with Suc.prems c have "x = e" "w1 = w'" by simp_all
    with c Inl show ?thesis by (subst Printer_follow.simps) simp
  next
    case (Inr p')
    with Suc.prems c have "follow_turns n env kind fmt p' w1 = (Inl e, w')" by simp
    from Suc.IH [OF this] c Inr show ?thesis by (subst Printer_follow.simps) simp
  qed
qed

lemma selected_build_in_window:
  assumes "Printer_items env p (str ''builds'') w = (Inr items, w')"
    and "Build b \<in> set items" and "finished b = Some f" and "fromisoformat_utc env f = Inr d"
  shows "in_window (p_start p) (p_end p) d"
proof -
  from Printer_items_builds [OF assms(1)] obtain feed rs where
    f: "Builds_filter env feed (p_start p) (p_end p) (w\<lparr>trace := trace w @ [Urlopen Builds_url]\<rparr>) =
          (Inr rs, w')" and i: "items = map Build rs" by blast
  from assms(2) i have "b \<in> set rs" by auto
  from Builds_filter_sound [OF f this] obtain d' where
    "evaluated_date env (w\<lparr>trace := trace w @ [Urlopen Builds_url]\<rparr>) w' (Build b) d'"
    "in_window (p_start p) (p_end p) d'" by blast
  with assms(3,4) show ?thesis by (simp add: evaluated_date_def)
qed

text \<open>
  C5. Let two turns of the loop of follow mode succeed one after the other. The end of the
  window of each turn is the reading of the clock at the top of the turn, the start of
  the second window is the end of the first, and each turn ends with a sleep of 10
  seconds. These are the first two turns of \<open>Printer.follow\<close>: when a later turn raises,
  the loop ends with that exception in the state reached through them. An instant equal
  to the end of the first window passes the test of the first window exactly when that
  window's start is not after its end, and the test of the second window exactly when the
  clock has not gone back between the two turns; a finished build dated at that instant
  and present in both fetches of the feed is selected in the first turn, and in the
  second, under exactly these conditions.
\<close>

theorem follow_boundary_in_both_cycles:
  assumes "follow_cycle env kind fmt p0 w0 = (Inr p1, w1)"
    and "follow_cycle env kind fmt p1 w1 = (Inr p2, w2)"
  shows "p_end p1 = now_utc env (clock w0) \<and> p_start p1 = p_end p1
    \<and> p_end p2 = now_utc env (clock w1) \<and> p_start p2 = p_end p2
    \<and> last (trace w1) = Sleep 10 \<and> last (trace w2) = Sleep 10
    \<and> follow_turns 2 env kind fmt p0 w0 = (Inr p2, w2)
    \<and> (follow_turns n env kind fmt p2 w2 = (Inl e, w3) \<longrightarrow>
         Printer_follow env kind fmt p0 w0 = Some (e, w3))
    \<and> in_window (p_start p0) (p_end p1) (p_end p1) = (p_start p0 \<le> p_end p1)
    \<and> in_window (p_start p1) (p_end p2) (p_end p1) = (p_end p1 \<le> p_end p2)
    \<and> (\<exists>items1 wa items2 wb.
         Printer_items env (p0\<lparr>p_end := p_end p1\<rparr>) kind (w0\<lparr>clock := Suc (clock w0)\<rparr>) =
           (Inr items1, wa)
         \<and> Printer_items env (p1\<lparr>p_end := p_end p2\<rparr>) kind (w1\<lparr>clock := Suc (clock w1)\<rparr>) =
           (Inr items2, wb)
         \<and> (kind = str ''builds'' \<and> finished b = Some f \<and> fromisoformat_utc env f = Inr (p_end p1) \<and>
            urlopen_json env Builds_url (length (trace w0)) = Inr feed0 \<and> b \<in> set feed0 \<and>
            urlopen_json env Builds_url (length (trace w1)) = Inr feed1 \<and> b \<in> set feed1 \<longrightarrow>
            (Build b \<in> set items1) = (p_start p0 \<le> p_end p1) \<and>
            (Build b \<in> set items2) = (p_end p1 \<le> p_end p2)))"
proof -
  from follow_cycle_result [OF assms(1)] obtain items1 wa wa' where
    i1: "Printer_items env (p0\<lparr>p_end := now_utc env (clock w0)\<rparr>) kind
           (w0\<lparr>clock := Suc (clock w0)\<rparr>) = (Inr items1, wa)"
    and t1: "w1 = wa'\<lparr>trace := trace wa' @ [Sleep 10]\<rparr>"
    and p1: "p1 = p0\<lparr>p_end := now_utc env (clock w0), p_start := now_utc env (clock w0)\<rparr>"
    by blast
  from follow_cycle_result [OF assms(2)] obtain items2 wb wb' where
    i2: "Printer_items env (p1\<lparr>p_end := now_utc env (clock w1)\<rparr>) kind
           (w1\<lparr>clock := Suc (clock w1)\<rparr>) = (Inr items2, wb)"
    and t2: "w2 = wb'\<lparr>trace := trace wb' @ [Sleep 10]\<rparr>"
    and p2: "p2 = p1\<lparr>p_end := now_utc env (clock w1), p_start := now_utc env (clock w1)\<rparr>"
    by blast
  have e1: "p_end p1 = now_utc env (clock w0)" "p_start p1 = p_end p1" using p1 by simp_all
  have e2: "p_end p2 = now_utc env (clock w1)" "p_start p2 = p_end p2" using p2 by simp_all
  have s: "last (trace w1) = Sleep 10" "last (trace w2) = Sleep 10" using t1 t2 by simp_all
  have two: "follow_turns 2 env kind fmt p0 w0 = (Inr p2, w2)"
    using assms by (simp add: numeral_2_eq_2)
  have loop: "follow_turns n env kind fmt p2 w2 = (Inl e, w3) \<longrightarrow>
         Printer_follow env kind fmt p0 w0 = Some (e, w3)"
  proof
    assume "follow_turns n env kind fmt p2 w2 = (Inl e, w3)"
    then have "follow_turns (Suc (Suc n)) env kind fmt p0 w0 = (Inl e, w3)"
      using assms by simp
    then show "Printer_follow env kind fmt p0 w0 = Some (e, w3)" by (rule follow_turns_raises)
  qed
  have w: "in_window (p_start p0) (p_end p1) (p_end p1) = (p_start p0 \<le> p_end p1)"
    "in_window (p_start p1) (p_end p2) (p_end p1) = (p_end p1 \<le> p_end p2)"
    using e1 by (simp_all add: in_window_def)
  have j1: "Printer_items env (p0\<lparr>p_end := p_end p1\<rparr>) kind (w0\<lparr>clock := Suc (clock w0)\<rparr>) =
           (Inr items1, wa)" using i1 e1 by simp
  have j2: "Printer_items env (p1\<lparr>p_end := p_end p2\<rparr>) kind (w1\<lparr>clock := Suc (clock w1)\<rparr>) =
           (Inr items2, wb)" using i2 e2 by simp
  have b: "kind = str ''builds'' \<and> finished b = Some f \<and> fromisoformat_utc env f = Inr (p_end p1) \<and>
            urlopen_json env Builds_url (length (trace w0)) = Inr feed0 \<and> b \<in> set feed0 \<and>
            urlopen_json env Builds_url (length (trace w1)) = Inr feed1 \<and> b \<in> set feed1 \<longrightarrow>
            (Build b \<in> set items1) = (p_start p0 \<le> p_end p1) \<and>
            (Build b \<in> set items2) = (p_end p1 \<le> p_end p2)"
  proof
    assume h: "kind = str ''builds'' \<and> finished b = Some f \<and>
            fromisoformat_utc env f = Inr (p_end p1) \<and>
            urlopen_json env Builds_url (length (trace w0)) = Inr feed0 \<and> b \<in> set feed0 \<and>
            urlopen_json env Builds_url (length (trace w1)) = Inr feed1 \<and> b \<in> set feed1"
    note k1 = j1 [unfolded conjunct1 [OF h]]
    note k2 = j2 [unfolded conjunct1 [OF h]]
    have a1: "Build b \<in> set items1 \<Longrightarrow> p_start p0 \<le> p_end p1"
      using selected_build_in_window [OF k1, of b f "p_end p1"] h by (simp add: in_window_def)
    have b1: "p_start p0 \<le> p_end p1 \<Longrightarrow> Build b \<in> set items1"
      using boundary_build_selected [OF k1, of feed0 b f "p_end p1"] h
      by (simp add: in_window_def)
    have a2: "Build b \<in> set items2 \<Longrightarrow> p_end p1 \<le> p_end p2"
      using selected_build_in_window [OF k2, of b f "p_end p1"] h e1 by (simp add: in_window_def)
    have b2: "p_end p1 \<le> p_end p2 \<Longrightarrow> Build b \<in> set items2"
      using boundary_build_selected [OF k2, of feed1 b f "p_end p1"] h e1
      by (simp add: in_window_def)
    from a1 b1 a2 b2 show "(Build b \<in> set items1) = (p_start p0 \<le> p_end p1) \<and>
            (Build b \<in> set items2) = (p_end p1 \<le> p_end p2)" by blast
  qed
  from e1 e2 s two loop w j1 j2 b show ?thesis by blast
qed

theorem follow_boundary_in_both_cycles_witness:
  "Printer_follow
     ((example_env (\<lambda>k. if k = 0 then 1714557610000000 else 1714730400000000) [] [])
        \<lparr>urlopen_json := \<lambda>url n.
           if n < 6
           then Inr [example_build (str ''alpha'') (str ''1.1'')
                       (Some (str ''2024-05-01T10:00:10+00:00''))]
           else Inl (OtherError (str ''URLError''))\<rparr>)
     (str ''builds'') (str ''md'') \<lparr>p_start = 1714557600000000, p_end = 0\<rparr>
     \<lparr>clock = 0, trace = []\<rparr> =
   Some (OtherError (str ''URLError''),
     \<lparr>clock = 3, trace =
        [Urlopen Builds_url, Print (str ''- [alpha 1.1-1](https://example.org/alpha)''), Sleep 10,
         Urlopen Builds_url, Print (str ''- [alpha 1.1-1](https://example.org/alpha)''), Sleep 10,
         Urlopen Builds_url]\<rparr>)"
proof -
  let ?b = "example_build (str ''alpha'') (str ''1.1'') (Some (str ''2024-05-01T10:00:10+00:00''))"
  let ?env = "(example_env (\<lambda>k. if k = 0 then 1714557610000000 else 1714730400000000) [] [])
        \<lparr>urlopen_json := \<lambda>url n. if n < 6 then Inr [?b] else Inl (OtherError (str ''URLError''))\<rparr>"
  let ?line = "Print (str ''- [alpha 1.1-1](https://example.org/alpha)'')"
  let ?p0 = "\<lparr>p_start = 1714557600000000, p_end = 0\<rparr>"
  let ?p1 = "\<lparr>p_start = 1714557610000000, p_end = 1714557610000000\<rparr>"
  let ?p2 = "\<lparr>p_start = 1714730400000000, p_end = 1714730400000000\<rparr>"
  let ?w0 = "\<lparr>clock = 0, trace = []\<rparr>"
  let ?w1 = "\<lparr>clock = 1, trace = [Urlopen Builds_url, ?line, Sleep 10]\<rparr>"
  let ?w2 = "\<lparr>clock = 2, trace = [Urlopen Builds_url, ?line, Sleep 10,
                Urlopen Builds_url, ?line, Sleep 10]\<rparr>"
  let ?w3 = "\<lparr>clock = 3, trace = [Urlopen Builds_url, ?line, Sleep 10,
                Urlopen Builds_url, ?line, Sleep 10, Urlopen Builds_url]\<rparr>"
  have c1: "follow_cycle ?env (str ''builds'') (str ''md'') ?p0 ?w0 = (Inr ?p1, ?w1)"
    by (simp add: follow_cycle_def Printer_items_def Builds_during_def Builds_all_def
        bind_def return_def Build_date_def now_def sleep_def in_window_def print_def
        Printer_print_items_def print_lines_def Listable_to_md_def Build_to_md_def
        example_defs)
  have c2: "follow_cycle ?env (str ''builds'') (str ''md'') ?p1 ?w1 = (Inr ?p2, ?w2)"
    by (simp add: follow_cycle_def Printer_items_def Builds_during_def Builds_all_def
        bind_def return_def Build_date_def now_def sleep_def in_window_def print_def
        Printer_print_items_def print_lines_def Listable_to_md_def Build_to_md_def
        example_defs)
  have c3: "follow_turns (Suc 0) ?env (str ''builds'') (str ''md'') ?p2 ?w2 =
      (Inl (OtherError (str ''URLError'')), ?w3)"
    by (simp add: follow_cycle_def Printer_items_def Builds_during_def Builds_all_def
        bind_def now_def example_defs)
  from follow_boundary_in_both_cycles [OF c1 c2, of "Suc 0" "OtherError (str ''URLError'')" ?w3] c3
  show ?thesis by blast
qed

text \<open>
  With a start of the window later than the first reading of the clock, both turns succeed
  and the build dated at the end of the first window is not selected in the first turn.
\<close>

theorem future_start_counterexample:
  "follow_cycle
     (example_env (\<lambda>k. if k = 0 then 1714557610000000 else 1714730400000000)
        [example_build (str ''alpha'') (str ''1.1'') (Some (str ''2024-05-01T10:00:10+00:00''))] [])
     (str ''builds'') (str ''md'') \<lparr>p_start = 1714557620000000, p_end = 0\<rparr>
     \<lparr>clock = 0, trace = []\<rparr> =
     (Inr \<lparr>p_start = 1714557610000000, p_end = 1714557610000000\<rparr>,
      \<lparr>clock = 1, trace = [Urlopen Builds_url, Sleep 10]\<rparr>)
   \<and> follow_cycle
     (example_env (\<lambda>k. if k = 0 then 1714557610000000 else 1714730400000000)
        [example_build (str ''alpha'') (str ''1.1'') (Some (str ''2024-05-01T10:00:10+00:00''))] [])
     (str ''builds'') (str ''md'') \<lparr>p_start = 1714557610000000, p_end = 1714557610000000\<rparr>
     \<lparr>clock = 1, trace = [Urlopen Builds_url, Sleep 10]\<rparr> =
     (Inr \<lparr>p_start = 1714730400000000, p_end = 1714730400000000\<rparr>,
      \<lparr>clock = 2, trace = [Urlopen Builds_url, Sleep 10, Urlopen Builds_url,
         Print (str ''- [alpha 1.1-1](https://example.org/alpha)''), Sleep 10]\<rparr>)
   \<and> Build_date
     (example_env (\<lambda>k. if k = 0 then 1714557610000000 else 1714730400000000)
        [example_build (str ''alpha'') (str ''1.1'') (Some (str ''2024-05-01T10:00:10+00:00''))] [])
     (example_build (str ''alpha'') (str ''1.1'') (Some (str ''2024-05-01T10:00:10+00:00'')))
     \<lparr>clock = 1, trace = []\<rparr> = (Inr 1714557610000000, \<lparr>clock = 1, trace = []\<rparr>)
   \<and> \<not> in_window 1714557620000000 1714557610000000 1714557610000000"
  by (simp add: follow_cycle_def Printer_items_def Builds_during_def Builds_all_def
        bind_def return_def Build_date_def now_def sleep_def in_window_def print_def
        Printer_print_items_def print_lines_def Listable_to_md_def Build_to_md_def
        example_defs)

section \<open>The report of an empty history of commits\<close>

lemma split_nonempty: "split sep s \<noteq> []"
  by (subst split.simps) (simp split: list.splits)

lemma from_lines_nonempty: "ls \<noteq> [] \<Longrightarrow> from_lines ls \<noteq> Inr []"
  by (cases ls) (auto split: sum.splits)

lemma commits_never_empty:
  assumes "popen_stdout env
      (Git_cmd @ [str ''--after='' @ str_datetime env (p_start p),
                  str ''--before='' @ str_datetime env (p_end p)]) (length (trace w)) \<noteq> None"
  shows "Printer_items env p (str ''commits'') w \<noteq> (Inr [], w')"
proof -
  have k: "str ''commits'' \<noteq> str ''builds''" "str ''commits'' \<noteq> str ''updates''"
    by (simp_all add: str_def)
  from assms obtain r where
    r: "popen_stdout env
      (Git_cmd @ [str ''--after='' @ str_datetime env (p_start p),
                  str ''--before='' @ str_datetime env (p_end p)]) (length (trace w)) = Some r"
    by blast
  show ?thesis
  proof (cases r)
    case (Inl e)
    with r k show ?thesis
      by (simp add: Printer_items_def Git_commits_def Git_commits_lines_def bind_def Let_def)
  next
    case (Inr printed)
    have "from_lines (split 10 (strip printed)) \<noteq> Inr []"
      using split_nonempty by (rule from_lines_nonempty)
    with r k Inr show ?thesis
      by (auto simp: Printer_items_def Git_commits_def Git_commits_lines_def bind_def Let_def
          return_def simp del: split.simps split: sum.splits)
  qed
qed

lemma empty_history_raises:
  assumes "\<not> cli_follow cli" and "cli_command cli = str ''commits''"
    and "popen_stdout env
      (Git_cmd @ [str ''--after='' @ str_datetime env (p_start p),
                  str ''--before='' @ str_datetime env (p_end p)]) (length (trace w)) = Some (Inr out)"
    and "strip out = []"
  shows "main env cli p w =
     Some (Inl TypeError,
           w\<lparr>trace := trace w @
              [Popen (Git_cmd @ [str ''--after='' @ str_datetime env (p_start p),
                                 str ''--before='' @ str_datetime env (p_end p)])]\<rparr>)"
proof -
  have k: "str ''commits'' \<noteq> str ''builds''" "str ''commits'' \<noteq> str ''updates''"
    by (simp_all add: str_def)
  show ?thesis
    using assms k
    by (simp add: main_def Printer_print_def Printer_items_def Git_commits_def
        Git_commits_lines_def bind_def Let_def from_line_def)
qed

text \<open>
  C7. For the kind \<open>commits\<close> the selection is never empty when \<open>git log\<close> has an output
  pipe, and a one-shot run over an empty history (\<open>git log\<close> prints nothing, or white
  space only) raises \<open>TypeError\<close> after starting \<open>git log\<close> and prints no count line.
\<close>

theorem empty_commit_history_report:
  "(popen_stdout env
      (Git_cmd @ [str ''--after='' @ str_datetime env (p_start p),
                  str ''--before='' @ str_datetime env (p_end p)]) (length (trace w)) \<noteq> None \<longrightarrow>
      Printer_items env p (str ''commits'') w \<noteq> (Inr [], w'))
   \<and> (\<not> cli_follow cli \<and> cli_command cli = str ''commits'' \<and>
      popen_stdout env
        (Git_cmd @ [str ''--after='' @ str_datetime env (p_start p),
                    str ''--before='' @ str_datetime env (p_end p)]) (length (trace w)) =
        Some (Inr out) \<and> strip out = [] \<longrightarrow>
      main env cli p w =
        Some (Inl TypeError,
              w\<lparr>trace := trace w @
                 [Popen (Git_cmd @ [str ''--after='' @ str_datetime env (p_start p),
                                    str ''--before='' @ str_datetime env (p_end p)])]\<rparr>))"
  using commits_never_empty empty_history_raises by blast

theorem empty_commit_history_report_witness:
  "\<exists>args. main (example_env (\<lambda>k. 1714557605000000) [] [])
      \<lparr>cli_command = str ''commits'', cli_format = str ''tty'', cli_sort = False, cli_follow = False\<rparr>
      \<lparr>p_start = 1714557600000000, p_end = 1714557610000000\<rparr> \<lparr>clock = 0, trace = []\<rparr> =
     Some (Inl TypeError, \<lparr>clock = 0, trace = [Popen args]\<rparr>)"
proof -
  let ?env = "example_env (\<lambda>k. 1714557605000000) [] []"
  let ?cli = "\<lparr>cli_command = str ''commits'', cli_format = str ''tty'', cli_sort = False,
      cli_follow = False\<rparr>"
  let ?p = "\<lparr>p_start = 1714557600000000, p_end = 1714557610000000\<rparr>"
  let ?w = "\<lparr>clock = 0, trace = []\<rparr>"
  let ?args = "Git_cmd @ [str ''--after='' @ str_datetime ?env (p_start ?p),
                          str ''--before='' @ str_datetime ?env (p_end ?p)]"
  have h: "\<not> cli_follow ?cli \<and> cli_command ?cli = str ''commits'' \<and>
      popen_stdout ?env ?args (length (trace ?w)) = Some (Inr []) \<and> strip [] = []"
    by (simp add: example_env_def strip_def)
  from empty_commit_history_report [of ?env ?p ?w _ ?cli "[]"] h
  have "main ?env ?cli ?p ?w = Some (Inl TypeError, ?w\<lparr>trace := trace ?w @ [Popen ?args]\<rparr>)"
    by blast
  then have "main ?env ?cli ?p ?w = Some (Inl TypeError, \<lparr>clock = 0, trace = [Popen ?args]\<rparr>)"
    by simp
  then show ?thesis by (rule exI)
qed

section \<open>The sorted report\<close>

lemma sorted_report_run:
  assumes "cli_sort cli" and "\<not> cli_follow cli"
    and "Printer_items env p (cli_command cli) w = (Inr items, w1)"
    and "item_keys env items w1 = (Inr ks, w2)"
  shows "main env cli p w =
     Some (Printer_print_items env (map snd (by_keys ks items)) (cli_format cli)
             (w2\<lparr>trace := trace w2 @
                [Print (str_nat (length items) @ str '' '' @ cli_command cli @ str '':'')]\<rparr>))"
proof -
  have len: "length ks = length items"
    using item_keys_result [OF assms(4)] by (simp add: list_all2_lengthD)
  then have l: "length (map snd (by_keys ks items)) = length items"
    by (simp add: by_keys_def)
  have "sorted_items env items w1 = (Inr (map snd (by_keys ks items)), w2)"
    using assms(4) by (simp add: sorted_items_def bind_def return_def)
  then have "Printer_print env cli p (cli_command cli) (cli_format cli) True w =
      Printer_print_items env (map snd (by_keys ks items)) (cli_format cli)
        (w2\<lparr>trace := trace w2 @
           [Print (str_nat (length items) @ str '' '' @ cli_command cli @ str '':'')]\<rparr>)"
    using assms(3) l
    by (simp add: Printer_print_def bind_def print_def del: str_nat.simps)
  then show ?thesis using assms(1,2) by (simp add: main_def)
qed

lemma print_md_lines:
  "items \<noteq> [] \<Longrightarrow>
   Printer_print_items env items (str ''md'') w =
     (Inr (), w\<lparr>trace := trace w @
        [Print (join [10] (map (\<lambda>item. str ''- '' @ Listable_to_md item) items))]\<rparr>)"
proof -
  have "str ''md'' \<noteq> str ''tty''" by (simp add: str_def)
  then show "items \<noteq> [] \<Longrightarrow> ?thesis"
    by (simp add: Printer_print_items_def print_lines_def print_def)
qed

text \<open>
  C8. A one-shot run with \<open>--sort\<close> evaluates the key of every selected item, the package
  and the date, in the order of the selection, and renders the items sorted by these keys
  after the count line; in format \<open>md\<close> it prints their lines in that order. The sorted
  sequence is a permutation of the selection; its keys ascend, by package in the lexical
  order of strings and, for equal packages, by date; items with the same key keep their
  order of the selection.
\<close>

theorem sort_by_package_then_date:
  assumes "cli_sort cli" and "\<not> cli_follow cli"
    and "Printer_items env p (cli_command cli) w = (Inr items, w1)"
    and "item_keys env items w1 = (Inr ks, w2)"
  shows "main env cli p w =
       Some (Printer_print_items env (map snd (by_keys ks items)) (cli_format cli)
               (w2\<lparr>trace := trace w2 @
                  [Print (str_nat (length items) @ str '' '' @ cli_command cli @ str '':'')]\<rparr>))
    \<and> (cli_format cli = str ''md'' \<and> items \<noteq> [] \<longrightarrow>
         main env cli p w =
           Some (Inr (), w2\<lparr>trace := trace w2 @
             [Print (str_nat (length items) @ str '' '' @ cli_command cli @ str '':''),
              Print (join [10] (map (\<lambda>item. str ''- '' @ Listable_to_md item)
                                    (map snd (by_keys ks items))))]\<rparr>))
    \<and> list_all2 (\<lambda>item k. Listable_package item = Inr (fst k) \<and>
                             evaluated_date env w1 w2 item (snd k)) items ks
    \<and> mset (map snd (by_keys ks items)) = mset items
    \<and> mset (by_keys ks items) = mset (zip ks items)
    \<and> (\<forall>i j. i < j \<and> j < length items \<longrightarrow>
          fst (fst (by_keys ks items ! i)) < fst (fst (by_keys ks items ! j)) \<or>
          (fst (fst (by_keys ks items ! i)) = fst (fst (by_keys ks items ! j)) \<and>
           snd (fst (by_keys ks items ! i)) \<le> snd (fst (by_keys ks items ! j))))
    \<and> (\<forall>k. filter (\<lambda>x. fst x = k) (by_keys ks items) = filter (\<lambda>x. fst x = k) (zip ks items))"
proof -
  note run = sorted_report_run [OF assms]
  have si: "sorted_items env items w1 = (Inr (map snd (by_keys ks items)), w2)"
    using assms(4) by (simp add: sorted_items_def bind_def return_def)
  from sorted_items_props [OF si] assms(4) have props:
    "list_all2 (\<lambda>item k. Listable_package item = Inr (fst k) \<and>
                             evaluated_date env w1 w2 item (snd k)) items ks"
    "mset (map snd (by_keys ks items)) = mset items"
    "mset (by_keys ks items) = mset (zip ks items)"
    "\<forall>i j. i < j \<and> j < length items \<longrightarrow>
          fst (fst (by_keys ks items ! i)) < fst (fst (by_keys ks items ! j)) \<or>
          (fst (fst (by_keys ks items ! i)) = fst (fst (by_keys ks items ! j)) \<and>
           snd (fst (by_keys ks items ! i)) \<le> snd (fst (by_keys ks items ! j)))"
    "\<forall>k. filter (\<lambda>x. fst x = k) (by_keys ks items) = filter (\<lambda>x. fst x = k) (zip ks items)"
    by auto
  have md: "cli_format cli = str ''md'' \<and> items \<noteq> [] \<longrightarrow>
         main env cli p w =
           Some (Inr (), w2\<lparr>trace := trace w2 @
             [Print (str_nat (length items) @ str '' '' @ cli_command cli @ str '':''),
              Print (join [10] (map (\<lambda>item. str ''- '' @ Listable_to_md item)
                                    (map snd (by_keys ks items))))]\<rparr>)"
  proof
    assume h: "cli_format cli = str ''md'' \<and> items \<noteq> []"
    have "length (by_keys ks items) = length items"
      using props(1) by (simp add: by_keys_def list_all2_lengthD)
    with h have ne: "map snd (by_keys ks items) \<noteq> []" by auto
    show "main env cli p w =
           Some (Inr (), w2\<lparr>trace := trace w2 @
             [Print (str_nat (length items) @ str '' '' @ cli_command cli @ str '':''),
              Print (join [10] (map (\<lambda>item. str ''- '' @ Listable_to_md item)
                                    (map snd (by_keys ks items))))]\<rparr>)"
      unfolding run using h print_md_lines [OF ne] by (simp del: str_nat.simps)
  qed
  from run md props show ?thesis by blast
qed

theorem sort_by_package_then_date_witness:
  "main (example_env (\<lambda>k. 1714557605000000)
      [example_build (str ''beta'') (str ''2.0'') (Some (str ''2024-05-01T10:00:00+00:00'')),
       example_build (str ''alpha'') (str ''1.1'') (Some (str ''2024-05-01T10:00:10+00:00'')),
       example_build (str ''alpha'') (str ''1.0'') (Some (str ''2024-05-01T10:00:00+00:00''))] [])
     \<lparr>cli_command = str ''builds'', cli_format = str ''md'', cli_sort = True, cli_follow = False\<rparr>
     \<lparr>p_start = 1714557600000000, p_end = 1714557610000000\<rparr> \<lparr>clock = 0, trace = []\<rparr> =
   Some (Inr (), \<lparr>clock = 0, trace =
     [Urlopen Builds_url, Print (str ''3 builds:''),
      Print (str ''- [alpha 1.0-1](https://example.org/alpha)'' @ [10] @
             str ''- [alpha 1.1-1](https://example.org/alpha)'' @ [10] @
             str ''- [beta 2.0-1](https://example.org/beta)'')]\<rparr>)"
proof -
  let ?x = "example_build (str ''beta'') (str ''2.0'') (Some (str ''2024-05-01T10:00:00+00:00''))"
  let ?y = "example_build (str ''alpha'') (str ''1.1'') (Some (str ''2024-05-01T10:00:10+00:00''))"
  let ?z = "example_build (str ''alpha'') (str ''1.0'') (Some (str ''2024-05-01T10:00:00+00:00''))"
  let ?env = "example_env (\<lambda>k. 1714557605000000) [?x, ?y, ?z] []"
  let ?cli = "\<lparr>cli_command = str ''builds'', cli_format = str ''md'', cli_sort = True,
      cli_follow = False\<rparr>"
  let ?p = "\<lparr>p_start = 1714557600000000, p_end = 1714557610000000\<rparr>"
  let ?w1 = "\<lparr>clock = 0, trace = [Urlopen Builds_url]\<rparr>"
  let ?ks = "[(str ''beta'', 1714557600000000), (str ''alpha'', 1714557610000000),
              (str ''alpha'', 1714557600000000 :: int)]"
  have s: "cli_sort ?cli" and f: "\<not> cli_follow ?cli" by simp_all
  have i: "Printer_items ?env ?p (cli_command ?cli) \<lparr>clock = 0, trace = []\<rparr> =
      (Inr [Build ?x, Build ?y, Build ?z], ?w1)"
    by (simp add: Printer_items_def Builds_during_def Builds_all_def bind_def return_def
        Build_date_def in_window_def example_defs)
  have k: "item_keys ?env [Build ?x, Build ?y, Build ?z] ?w1 = (Inr ?ks, ?w1)"
    by (simp add: item_key_def Listable_package_def Listable_date_def Build_package_def
        Build_date_def example_defs)
  have m: "cli_format ?cli = str ''md'' \<and> [Build ?x, Build ?y, Build ?z] \<noteq> []" by simp
  have b: "map snd (by_keys ?ks [Build ?x, Build ?y, Build ?z]) = [Build ?z, Build ?y, Build ?x]"
    by (simp add: by_keys_def str_def)
  from sort_by_package_then_date [OF s f i k] m
  have "main ?env ?cli ?p \<lparr>clock = 0, trace = []\<rparr> =
      Some (Inr (), ?w1\<lparr>trace := trace ?w1 @
        [Print (str_nat (length [Build ?x, Build ?y, Build ?z]) @ str '' '' @ cli_command ?cli @
                str '':''),
         Print (join [10] (map (\<lambda>item. str ''- '' @ Listable_to_md item)
                  (map snd (by_keys ?ks [Build ?x, Build ?y, Build ?z]))))]\<rparr>)"
    by blast
  then show ?thesis
    unfolding b by (simp add: Listable_to_md_def Build_to_md_def example_build_def str_def)
qed

end
